theory Spec2Isabelle
  imports Complex_Main
begin

section \<open>Strings and numbers as the TypeScript code uses them\<close>

text \<open>
  JavaScript's conversion of a non-negative integer to a string, as done by
  \<^verbatim>\<open>baseIP + "." + i\<close> and by the template literals that build URLs: the decimal
  digits, most significant first, no leading zero.
\<close>

definition digit_char :: "nat \<Rightarrow> char" where
  "digit_char d = ''0123456789'' ! d"

fun show_nat :: "nat \<Rightarrow> string" where
  "show_nat n = (if n < 10 then [digit_char n] else show_nat (n div 10) @ [digit_char (n mod 10)])"

declare show_nat.simps [simp del]

text \<open>\<^verbatim>\<open>s.startsWith(p)\<close>.\<close>

definition startsWith :: "string \<Rightarrow> string \<Rightarrow> bool" where
  "startsWith s p = (take (length p) s = p)"

text \<open>
  \<^verbatim>\<open>s.split('.')\<close>: the pieces between the dots; the empty string gives one empty
  piece, and a string with n dots gives n + 1 pieces.
\<close>

fun split_dot :: "string \<Rightarrow> string list" where
  "split_dot [] = [[]]"
| "split_dot (c # cs) =
     (if c = CHR ''.'' then [] # split_dot cs
      else (case split_dot cs of [] \<Rightarrow> [[c]] | p # ps \<Rightarrow> (c # p) # ps))"

text \<open>\<^verbatim>\<open>parts.join('.')\<close>.\<close>

fun join_dot :: "string list \<Rightarrow> string" where
  "join_dot [] = []"
| "join_dot [p] = p"
| "join_dot (p # q # ps) = p @ ''.'' @ join_dot (q # ps)"

section \<open>Candidate addresses of one subnet (\<^verbatim>\<open>findServers\<close>, the head of the loop body)\<close>

text \<open>
  \<^verbatim>\<open>
  const priorityIPs = [1, 100, 101, 102, 103, 104, 105, 110, 150, 200];
  const allIPs = [...priorityIPs, ...Array.from({length: 254}, (_, i) => i + 1)
    .filter(i => !priorityIPs.includes(i))];
  for (const i of allIPs.slice(0, 30)) { const ip = baseIP + "." + i; ... }
  \<close>
\<close>

definition priorityIPs :: "nat list" where
  "priorityIPs = [1, 100, 101, 102, 103, 104, 105, 110, 150, 200]"

definition allIPs :: "nat list" where
  "allIPs = priorityIPs @ filter (\<lambda>i. i \<notin> set priorityIPs) (map (\<lambda>i. i + 1) [0..<254])"

definition scannedIPs :: "nat list" where
  "scannedIPs = take 30 allIPs"

definition address :: "string \<Rightarrow> nat \<Rightarrow> string" where
  "address baseIP i = baseIP @ ''.'' @ show_nat i"

definition candidates :: "string \<Rightarrow> string list" where
  "candidates baseIP = map (address baseIP) scannedIPs"

section \<open>JSON payloads and HTTP outcomes\<close>

text \<open>
  What \<^verbatim>\<open>response.json()\<close> can resolve to. A JSON object is kept as its list of
  members in source order; \<^verbatim>\<open>JSON.parse\<close> lets the last of several equal keys win.
\<close>

datatype json =
    JNull
  | JBool bool
  | JNum real
  | JStr string
  | JArr "json list"
  | JObj "(string \<times> json) list"

text \<open>Why a \<^verbatim>\<open>fetch\<close> promise rejects: a network-level failure, or the abort signal fired.\<close>

datatype failure = NetworkError | Aborted

text \<open>
  The outcome of one \<^verbatim>\<open>fetch\<close>: it rejects, or it resolves to a response with its
  \<^verbatim>\<open>ok\<close> flag (status in 200..299) and its body (\<open>None\<close> when the body is not JSON, so
  that \<^verbatim>\<open>response.json()\<close> rejects with a SyntaxError).
\<close>

datatype http = Rejects failure | Response bool "json option"

datatype error = FetchError failure | HttpError | SyntaxError | TypeError

text \<open>
  The world outside the program: for each URL, how many milliseconds the request takes
  and what comes back.
\<close>

type_synonym network = "string \<Rightarrow> nat \<times> http"

text \<open>
  A \<^verbatim>\<open>fetch\<close> issued \<open>start\<close> ms after an abort timer of \<open>deadline\<close> ms was armed:
  it settles with the network's answer if that arrives before the timer fires, and
  rejects at the deadline otherwise. The result carries the time of settlement.
\<close>

definition fetchWithin :: "nat \<Rightarrow> nat \<Rightarrow> network \<Rightarrow> string \<Rightarrow> nat \<times> http" where
  "fetchWithin deadline start net url =
     (case net url of (latency, resp) \<Rightarrow>
        if start + latency < deadline then (start + latency, resp)
        else (deadline, Rejects Aborted))"

text \<open>
  Reading a property that is not a built-in one (\<^verbatim>\<open>data.ip\<close>, \<^verbatim>\<open>coords.playerName\<close>)
  off a parsed JSON value: a TypeError on \<^verbatim>\<open>null\<close>, the member's value on an object that
  has it, and \<^verbatim>\<open>undefined\<close> (\<open>None\<close>) in every other case.
\<close>

fun getProp :: "json \<Rightarrow> string \<Rightarrow> error + json option" where
  "getProp JNull k = Inl TypeError"
| "getProp (JObj kvs) k = Inr (map_of (rev kvs) k)"
| "getProp j k = Inr None"

text \<open>JavaScript truthiness of a JSON value or \<^verbatim>\<open>undefined\<close>.\<close>

fun truthy :: "json option \<Rightarrow> bool" where
  "truthy None = False"
| "truthy (Some JNull) = False"
| "truthy (Some (JBool b)) = b"
| "truthy (Some (JNum x)) = (x \<noteq> 0)"
| "truthy (Some (JStr s)) = (s \<noteq> [])"
| "truthy (Some (JArr xs)) = True"
| "truthy (Some (JObj kvs)) = True"

text \<open>\<^verbatim>\<open>v || d\<close>.\<close>

definition orDefault :: "json option \<Rightarrow> json \<Rightarrow> json" where
  "orDefault v d = (case v of None \<Rightarrow> d | Some j \<Rightarrow> if truthy v then j else d)"

section \<open>The probe: \<^verbatim>\<open>MinecraftAPI.testServer\<close>\<close>

text \<open>
  \<^verbatim>\<open>interface ServerInfo { ip: string; port: number; playerName: string; isOnline: boolean }\<close>.
  The player name is whatever truthy value the payload carries under \<^verbatim>\<open>playerName\<close>
  (the declared type \<^verbatim>\<open>string\<close> is not checked at run time), so it is kept as a JSON value.
\<close>

record ServerInfo =
  ip :: string
  port :: nat
  playerName :: json
  isOnline :: bool

definition probeURL :: "string \<Rightarrow> nat \<Rightarrow> string \<Rightarrow> string" where
  "probeURL host p path = ''http://'' @ host @ '':'' @ show_nat p @ path"

text \<open>
  The body of the \<^verbatim>\<open>try\<close> block of \<^verbatim>\<open>testServer\<close>. One abort timer of 1500 ms covers
  both requests; it is cleared once the coordinates response has arrived. The result
  is the time at which the body finishes and either the exception it throws or the
  value it returns (\<open>None\<close> is \<^verbatim>\<open>null\<close>).
\<close>

definition testServerTry :: "network \<Rightarrow> string \<Rightarrow> nat \<Rightarrow> nat \<times> (error + ServerInfo option)" where
  "testServerTry net host p =
     (case fetchWithin 1500 0 net (probeURL host p ''/health'') of
        (t1, Rejects f) \<Rightarrow> (t1, Inl (FetchError f))
      | (t1, Response healthOk healthBody) \<Rightarrow>
          if \<not> healthOk then (t1, Inr None)
          else
            (case fetchWithin 1500 t1 net (probeURL host p ''/coords'') of
               (t2, Rejects f) \<Rightarrow> (t2, Inl (FetchError f))
             | (t2, Response coordsOk coordsBody) \<Rightarrow>
                 if coordsOk then
                   (case coordsBody of
                      None \<Rightarrow> (t2, Inl SyntaxError)
                    | Some coords \<Rightarrow>
                        (case getProp coords ''playerName'' of
                           Inl e \<Rightarrow> (t2, Inl e)
                         | Inr v \<Rightarrow>
                             (t2, Inr (Some \<lparr>ip = host, port = p,
                                playerName = orDefault v (JStr ''Unknown Player''),
                                isOnline = True\<rparr>))))
                 else
                   (t2, Inr (Some \<lparr>ip = host, port = p,
                      playerName = JStr ''Player Offline'', isOnline = False\<rparr>))))"

text \<open>\<^verbatim>\<open>testServer\<close>: the \<^verbatim>\<open>catch\<close> turns every exception of the body into \<^verbatim>\<open>null\<close>.\<close>

definition testServer :: "network \<Rightarrow> string \<Rightarrow> nat \<Rightarrow> nat \<times> (error + ServerInfo option)" where
  "testServer net host p =
     (case testServerTry net host p of
        (t, Inl e) \<Rightarrow> (t, Inr None)
      | (t, Inr v) \<Rightarrow> (t, Inr v))"

section \<open>The subnet resolver: \<^verbatim>\<open>MinecraftAPI.getLocalNetworkBases\<close>\<close>

definition bases :: "string list" where
  "bases = [''192.168.1'', ''192.168.0'', ''10.0.0'', ''172.16.0'']"

definition lookupURL :: string where
  "lookupURL = ''https://api.ipify.org?format=json''"

text \<open>
  The \<^verbatim>\<open>try\<close> block: it throws, returns a list (\<open>Some\<close>), or falls through to the
  \<^verbatim>\<open>return bases\<close> after the block (\<open>None\<close>). \<^verbatim>\<open>ip.split\<close> is a TypeError unless
  \<^verbatim>\<open>ip\<close> is a string.
\<close>

definition getLocalNetworkBasesTry :: "network \<Rightarrow> error + string list option" where
  "getLocalNetworkBasesTry net =
     (case fetchWithin 3000 0 net lookupURL of
        (t, Rejects f) \<Rightarrow> Inl (FetchError f)
      | (t, Response ok body) \<Rightarrow>
          if ok then
            (case body of
               None \<Rightarrow> Inl SyntaxError
             | Some data \<Rightarrow>
                 (case getProp data ''ip'' of
                    Inl e \<Rightarrow> Inl e
                  | Inr (Some (JStr s)) \<Rightarrow>
                      (let parts = split_dot s in
                       if length parts = 4 then
                         (let baseIP = join_dot (take 3 parts) in
                          if startsWith baseIP ''192.168.'' \<or> startsWith baseIP ''10.''
                             \<or> startsWith baseIP ''172.''
                          then Inr (Some (baseIP # filter (\<lambda>b. b \<noteq> baseIP) bases))
                          else Inr None)
                       else Inr None)
                  | Inr other \<Rightarrow> Inl TypeError))
          else Inr None)"

definition getLocalNetworkBases :: "network \<Rightarrow> error + string list" where
  "getLocalNetworkBases net =
     (case getLocalNetworkBasesTry net of
        Inl e \<Rightarrow> Inr bases
      | Inr None \<Rightarrow> Inr bases
      | Inr (Some found) \<Rightarrow> Inr found)"

section \<open>The scanner: \<^verbatim>\<open>MinecraftAPI.findServers\<close>\<close>

text \<open>
  \<^verbatim>\<open>Promise.allSettled\<close>: one result per promise, at the promise's own index, whatever
  the order in which the promises settled.
\<close>

datatype 'a settled = Fulfilled 'a | Rejected error

definition allSettled :: "(nat \<times> (error + 'a)) list \<Rightarrow> 'a settled list" where
  "allSettled promises =
     map (\<lambda>(t, r). case r of Inr v \<Rightarrow> Fulfilled v | Inl e \<Rightarrow> Rejected e) promises"

text \<open>
  \<^verbatim>\<open>for (const result of results) if (result.status === "fulfilled" && result.value) servers.push(result.value)\<close>
\<close>

fun pushFulfilled :: "ServerInfo option settled list \<Rightarrow> ServerInfo list \<Rightarrow> ServerInfo list" where
  "pushFulfilled [] servers = servers"
| "pushFulfilled (Fulfilled (Some v) # results) servers = pushFulfilled results (servers @ [v])"
| "pushFulfilled (r # results) servers = pushFulfilled results servers"

text \<open>The \<^verbatim>\<open>for (const baseIP of baseIPs)\<close> loop, with \<open>servers\<close> as its accumulator.\<close>

fun scanBases :: "network \<Rightarrow> nat \<Rightarrow> string list \<Rightarrow> ServerInfo list \<Rightarrow> ServerInfo list" where
  "scanBases net p [] servers = servers"
| "scanBases net p (baseIP # rest) servers =
     (let promises = map (\<lambda>a. testServer net a p) (candidates baseIP);
          results = allSettled promises
      in scanBases net p rest (pushFulfilled results servers))"

definition findServers :: "network \<Rightarrow> nat \<Rightarrow> error + ServerInfo list" where
  "findServers net p =
     (case getLocalNetworkBases net of
        Inl e \<Rightarrow> Inl e
      | Inr baseIPs \<Rightarrow> Inr (scanBases net p baseIPs []))"

section \<open>The API client of a chosen server: \<^verbatim>\<open>MinecraftAPI\<close> instances\<close>

record MinecraftAPI =
  baseURL :: string
  timeout :: nat

text \<open>\<^verbatim>\<open>new MinecraftAPI(computerIP, port)\<close>, with the default timeout of 3000 ms.\<close>

definition newMinecraftAPI :: "string \<Rightarrow> nat \<Rightarrow> MinecraftAPI" where
  "newMinecraftAPI computerIP p =
     \<lparr>baseURL = ''http://'' @ computerIP @ '':'' @ show_nat p, timeout = 3000\<rparr>"

text \<open>
  \<^verbatim>\<open>checkHealth\<close> and \<^verbatim>\<open>fetchCoordinates\<close>: one request under the instance's own
  timeout; a rejected fetch, a response that is not \<^verbatim>\<open>ok\<close> and a body that is not
  JSON are each rethrown to the caller.
\<close>

definition checkHealth :: "MinecraftAPI \<Rightarrow> network \<Rightarrow> error + json" where
  "checkHealth api net =
     (case fetchWithin (timeout api) 0 net (baseURL api @ ''/health'') of
        (t, Rejects f) \<Rightarrow> Inl (FetchError f)
      | (t, Response ok body) \<Rightarrow>
          if \<not> ok then Inl HttpError
          else (case body of None \<Rightarrow> Inl SyntaxError | Some j \<Rightarrow> Inr j))"

definition fetchCoordinates :: "MinecraftAPI \<Rightarrow> network \<Rightarrow> error + json" where
  "fetchCoordinates api net =
     (case fetchWithin (timeout api) 0 net (baseURL api @ ''/coords'') of
        (t, Rejects f) \<Rightarrow> Inl (FetchError f)
      | (t, Response ok body) \<Rightarrow>
          if \<not> ok then Inl HttpError
          else (case body of None \<Rightarrow> Inl SyntaxError | Some j \<Rightarrow> Inr j))"

section \<open>The polling client: \<^verbatim>\<open>HomeScreen\<close> in \<^verbatim>\<open>app/(tabs)/index.tsx\<close>\<close>

text \<open>
  A live interval of the JavaScript runtime: its handle, and the environment of the
  callback that \<^verbatim>\<open>startUpdates\<close> gave to \<^verbatim>\<open>setInterval\<close>. The callback reads
  \<^verbatim>\<open>apiRef.current\<close> (a ref: its value at the time of the tick) and \<^verbatim>\<open>isConnected\<close>
  (a \<^verbatim>\<open>const\<close> of the render in which \<^verbatim>\<open>startUpdates\<close> was created: its value at that
  render, kept in \<open>seesConnected\<close>).
\<close>

record timer =
  handle :: nat
  seesConnected :: bool

text \<open>
  The component's state (\<^verbatim>\<open>useState\<close>), its refs (\<^verbatim>\<open>useRef\<close>) and what it does to
  the world: the intervals registered with the runtime, the alerts shown and the
  requests sent. \<^verbatim>\<open>coordinates\<close> is \<open>JNull\<close> for \<^verbatim>\<open>null\<close>. A timer handle
  (\<^verbatim>\<open>NodeJS.Timeout\<close>) is an object, hence truthy.
\<close>

record HomeScreen =
  coordinates :: json
  isConnected :: bool
  connectedServer :: string
  lastUpdate :: nat
  permissionsGranted :: bool
  apiRef :: "MinecraftAPI option"
  intervalRef :: "nat option"
  intervals :: "timer list"
  nextHandle :: nat
  alerts :: "string list"
  requests :: "string list"

definition clearInterval :: "nat \<Rightarrow> HomeScreen \<Rightarrow> HomeScreen" where
  "clearInterval h s = s\<lparr>intervals := filter (\<lambda>t. handle t \<noteq> h) (intervals s)\<rparr>"

text \<open>
  \<^verbatim>\<open>startUpdates\<close> of the render \<open>r\<close>: it clears the interval the ref holds, if any,
  and registers a new one whose callback closes over \<open>isConnected r\<close>.
\<close>

definition startUpdates :: "HomeScreen \<Rightarrow> HomeScreen \<Rightarrow> HomeScreen" where
  "startUpdates r s =
     (let s1 = (case intervalRef s of None \<Rightarrow> s | Some h \<Rightarrow> clearInterval h s);
          h' = nextHandle s1
      in s1\<lparr>intervals := intervals s1 @ [\<lparr>handle = h', seesConnected = isConnected r\<rparr>],
            nextHandle := Suc h',
            intervalRef := Some h'\<rparr>)"

text \<open>
  The interval callback, run at time \<open>now\<close> against the network \<open>net\<close>:
  \<^verbatim>\<open>
  if (apiRef.current && isConnected) {
    try { const coords = await apiRef.current.fetchCoordinates();
          setCoordinates(coords); setLastUpdate(Date.now()); }
    catch (error) { console.error(...) }
  }
  \<close>
\<close>

definition tick :: "timer \<Rightarrow> nat \<Rightarrow> network \<Rightarrow> HomeScreen \<Rightarrow> HomeScreen" where
  "tick t now net s =
     (case apiRef s of
        None \<Rightarrow> s
      | Some api \<Rightarrow>
          if seesConnected t then
            (let s1 = s\<lparr>requests := requests s @ [baseURL api @ ''/coords'']\<rparr> in
             case fetchCoordinates api net of
               Inl e \<Rightarrow> s1
             | Inr coords \<Rightarrow> s1\<lparr>coordinates := coords, lastUpdate := now\<rparr>)
          else s)"

text \<open>One firing of every live interval, in registration order.\<close>

definition fireIntervals :: "nat \<Rightarrow> network \<Rightarrow> HomeScreen \<Rightarrow> HomeScreen" where
  "fireIntervals now net s = fold (\<lambda>t. tick t now net) (intervals s) s"

definition stopUpdates :: "HomeScreen \<Rightarrow> HomeScreen" where
  "stopUpdates s =
     (case intervalRef s of
        None \<Rightarrow> s
      | Some h \<Rightarrow> (clearInterval h s)\<lparr>intervalRef := None\<rparr>)"

text \<open>
  \<^verbatim>\<open>handleConnect(ip, port)\<close> of the render \<open>r\<close>, run at time \<open>now\<close>. It reads
  \<^verbatim>\<open>permissionsGranted\<close> of its render and calls the \<^verbatim>\<open>startUpdates\<close> of its render.
  Every \<^verbatim>\<open>Alert.alert\<close> is recorded by its title, every request by its URL.
\<close>

definition handleConnect ::
  "HomeScreen \<Rightarrow> string \<Rightarrow> nat \<Rightarrow> nat \<Rightarrow> network \<Rightarrow> HomeScreen \<Rightarrow> HomeScreen" where
  "handleConnect r host p now net s =
     (if \<not> permissionsGranted r then s\<lparr>alerts := alerts s @ [''Permissions Required'']\<rparr>
      else
        (let api = newMinecraftAPI host p;
             s1 = s\<lparr>requests := requests s @ [baseURL api @ ''/health'']\<rparr> in
         case checkHealth api net of
           Inl e \<Rightarrow> s1\<lparr>alerts := alerts s1 @ [''Connection Failed'']\<rparr>
         | Inr health \<Rightarrow>
             (let s2 = s1\<lparr>requests := requests s1 @ [baseURL api @ ''/coords'']\<rparr> in
              case fetchCoordinates api net of
                Inl e \<Rightarrow> s2\<lparr>alerts := alerts s2 @ [''Connection Failed'']\<rparr>
              | Inr coords \<Rightarrow>
                  startUpdates r
                    (s2\<lparr>apiRef := Some api,
                        coordinates := coords,
                        isConnected := True,
                        connectedServer := host @ '':'' @ show_nat p,
                        lastUpdate := now\<rparr>))))"

text \<open>
  The render \<open>r\<close> hands its \<^verbatim>\<open>handleConnect\<close> to the scanner, the only caller:
  \<^verbatim>\<open>{!isConnected && (<ServerScanner onConnect={handleConnect} ... />)}\<close>.
\<close>

definition offersConnect :: "HomeScreen \<Rightarrow> bool" where
  "offersConnect r = (\<not> isConnected r)"

definition handleDisconnect :: "HomeScreen \<Rightarrow> HomeScreen" where
  "handleDisconnect s =
     (stopUpdates s)\<lparr>apiRef := None,
                    coordinates := JNull,
                    isConnected := False,
                    connectedServer := [],
                    lastUpdate := 0\<rparr>"

text \<open>
  The component as first mounted, once the permission check has finished
  (\<^verbatim>\<open>requestNetworkPermissions\<close> returns \<^verbatim>\<open>true\<close> on every platform).
\<close>

definition mounted :: HomeScreen where
  "mounted =
     \<lparr>coordinates = JNull, isConnected = False, connectedServer = [], lastUpdate = 0,
      permissionsGranted = True, apiRef = None, intervalRef = None, intervals = [],
      nextHandle = 1, alerts = [], requests = []\<rparr>"

text \<open>
  The Idle state of the client: not connected, no snapshot, no API instance, no
  interval held by the ref and none live in the runtime.
\<close>

definition idle :: "HomeScreen \<Rightarrow> bool" where
  "idle s =
     (\<not> isConnected s \<and> coordinates s = JNull \<and> apiRef s = None \<and> intervalRef s = None
      \<and> intervals s = [] \<and> connectedServer s = [] \<and> lastUpdate s = 0)"

text \<open>
  The ref holds every interval the component has live: what \<^verbatim>\<open>startUpdates\<close> and
  \<^verbatim>\<open>stopUpdates\<close> maintain by clearing the held interval before replacing or
  dropping it.
\<close>

definition refOwnsIntervals :: "HomeScreen \<Rightarrow> bool" where
  "refOwnsIntervals s =
     (case intervalRef s of
        None \<Rightarrow> intervals s = []
      | Some h \<Rightarrow> list_all (\<lambda>t. handle t = h) (intervals s))"

section \<open>Notions used to state the properties\<close>

text \<open>The text appended to the base for each scanned host octet: a dot and the octet.\<close>

definition suffixes :: "string list" where
  "suffixes = map (\<lambda>i. ''.'' @ show_nat i) scannedIPs"

text \<open>
  What the promise of \<^verbatim>\<open>testServer\<close> for one address fulfils with: a server, or
  nothing (\<^verbatim>\<open>null\<close>). An address is responsive when its probe yields a server.
\<close>

definition probeResult :: "network \<Rightarrow> nat \<Rightarrow> string \<Rightarrow> ServerInfo option" where
  "probeResult net p a = (case snd (testServer net a p) of Inl e \<Rightarrow> None | Inr v \<Rightarrow> v)"

definition responsive :: "network \<Rightarrow> nat \<Rightarrow> string \<Rightarrow> bool" where
  "responsive net p a = (probeResult net p a \<noteq> None)"

text \<open>
  The network-level condition under which the probe of an address yields a server:
  the health request is answered with a status in 200..299, the coordinates request
  is answered as well, both inside the one 1500 ms budget, and the coordinates answer
  either has a status outside 200..299 or carries a JSON body other than \<^verbatim>\<open>null\<close>.
\<close>

definition healthy :: "http \<Rightarrow> bool" where
  "healthy r = (case r of Rejects f \<Rightarrow> False | Response ok body \<Rightarrow> ok)"

definition listable :: "http \<Rightarrow> bool" where
  "listable r =
     (case r of
        Rejects f \<Rightarrow> False
      | Response ok body \<Rightarrow>
          if ok then (case body of None \<Rightarrow> False | Some coords \<Rightarrow> coords \<noteq> JNull)
          else True)"

definition completesProbe :: "network \<Rightarrow> nat \<Rightarrow> string \<Rightarrow> bool" where
  "completesProbe net p a =
     (healthy (snd (net (probeURL a p ''/health'')))
      \<and> listable (snd (net (probeURL a p ''/coords'')))
      \<and> fst (net (probeURL a p ''/health'')) + fst (net (probeURL a p ''/coords'')) < 1500)"

text \<open>
  The entry under which such an address is listed, read off the coordinates answer:
  online with the payload's player name (or \<^verbatim>\<open>Unknown Player\<close>) for a status in
  200..299, offline otherwise.
\<close>

definition listedAs :: "network \<Rightarrow> nat \<Rightarrow> string \<Rightarrow> ServerInfo" where
  "listedAs net p a =
     (case snd (net (probeURL a p ''/coords'')) of
        Response True (Some coords) \<Rightarrow>
          \<lparr>ip = a, port = p,
           playerName = (case getProp coords ''playerName'' of
                           Inl e \<Rightarrow> JStr ''Unknown Player''
                         | Inr v \<Rightarrow> orDefault v (JStr ''Unknown Player'')),
           isOnline = True\<rparr>
      | other \<Rightarrow>
          \<lparr>ip = a, port = p, playerName = JStr ''Player Offline'', isOnline = False\<rparr>)"

text \<open>The time, from the start of its batch, at which the probe behind a result settled.\<close>

definition settledAt :: "network \<Rightarrow> nat \<Rightarrow> ServerInfo \<Rightarrow> nat" where
  "settledAt net p v = fst (testServer net (ip v) p)"

text \<open>One pass of the scanner's loop body, for one subnet, from an empty result list.\<close>

definition subnetBatch :: "network \<Rightarrow> nat \<Rightarrow> string \<Rightarrow> ServerInfo list" where
  "subnetBatch net p baseIP = scanBases net p [baseIP] []"

text \<open>
  The specification's notion of a well-formed lookup answer, a dotted-quad IPv4
  address: four dot-separated decimal numbers, each between 0 and 255.
\<close>

definition isDigit :: "char \<Rightarrow> bool" where
  "isDigit c = (c \<in> set ''0123456789'')"

definition decimalValue :: "string \<Rightarrow> nat" where
  "decimalValue q = fold (\<lambda>c n. 10 * n + (of_char c - 48)) q 0"

definition specOctet :: "string \<Rightarrow> bool" where
  "specOctet q = (q \<noteq> [] \<and> length q \<le> 3 \<and> list_all isDigit q \<and> decimalValue q \<le> 255)"

definition specDottedQuad :: "string \<Rightarrow> bool" where
  "specDottedQuad s = (length (split_dot s) = 4 \<and> list_all specOctet (split_dot s))"

subsection \<open>Concrete networks\<close>

text \<open>A network on which nothing answers.\<close>

definition deadNet :: network where
  "deadNet = (\<lambda>url. (0, Rejects NetworkError))"

text \<open>
  A LAN with two servers on port 8080: 192.168.1.1 answers both requests after 200 ms
  each; 192.168.1.100 answers after 10 ms each, its coordinates request with a status
  outside 200..299. Nothing else answers, the public-IP service included.
\<close>

definition lanNet :: network where
  "lanNet = (\<lambda>url.
     if url = ''http://192.168.1.1:8080/health''
       then (200, Response True (Some (JObj [(''status'', JStr ''ok''), (''timestamp'', JNum 1000)])))
     else if url = ''http://192.168.1.1:8080/coords''
       then (200, Response True (Some (JObj [(''playerName'', JStr ''Steve'')])))
     else if url = ''http://192.168.1.100:8080/health''
       then (10, Response True (Some (JObj [(''status'', JStr ''ok''), (''timestamp'', JNum 1000)])))
     else if url = ''http://192.168.1.100:8080/coords''
       then (10, Response False None)
     else (0, Rejects NetworkError))"

text \<open>
  A host whose health endpoint answers and whose coordinates request fails at the
  network level, well inside the time budget.
\<close>

definition coordsDownNet :: network where
  "coordsDownNet = (\<lambda>url.
     if url = ''http://192.168.1.100:8080/health''
       then (10, Response True (Some (JObj [(''status'', JStr ''ok''), (''timestamp'', JNum 1000)])))
     else (10, Rejects NetworkError))"

text \<open>A public-IP service that answers with a string that is no IPv4 address.\<close>

definition badLookupNet :: network where
  "badLookupNet = (\<lambda>url.
     if url = ''https://api.ipify.org?format=json''
       then (5, Response True (Some (JObj [(''ip'', JStr ''10.x.y.z'')])))
     else (0, Rejects NetworkError))"

text \<open>
  A slow host at 192.168.1.100:8080: each of its two answers is a 200 and takes 900 ms,
  so the second one arrives after the 1500 ms timer of the probe has fired.
\<close>

definition slowNet :: network where
  "slowNet = (\<lambda>url.
     if url = ''http://192.168.1.100:8080/health''
       then (900, Response True (Some (JObj [(''status'', JStr ''ok''), (''timestamp'', JNum 1000)])))
     else if url = ''http://192.168.1.100:8080/coords''
       then (900, Response True (Some (JObj [(''playerName'', JStr ''Steve'')])))
     else (0, Rejects NetworkError))"

text \<open>The server of the specification's end-to-end example, at 192.168.1.100:8080.\<close>

definition steveCoords :: json where
  "steveCoords = JObj [(''x'', JNum 10), (''y'', JNum 64), (''z'', JNum (- 5)),
     (''dimension'', JStr ''overworld''), (''timestamp'', JNum 1000),
     (''playerName'', JStr ''Steve'')]"

definition steveNet :: network where
  "steveNet = (\<lambda>url.
     if url = ''http://192.168.1.100:8080/health''
       then (10, Response True (Some (JObj [(''status'', JStr ''ok''), (''timestamp'', JNum 1000)])))
     else if url = ''http://192.168.1.100:8080/coords''
       then (10, Response True (Some steveCoords))
     else (0, Rejects NetworkError))"

section \<open>The candidate list\<close>

lemma scannedIPs_eq:
  "scannedIPs = [1, 100, 101, 102, 103, 104, 105, 110, 150, 200,
     2, 3, 4, 5, 6, 7, 8, 9, 10, 11, 12, 13, 14, 15, 16, 17, 18, 19, 20, 21]"
  by code_simp

lemma suffixes_eq:
  "suffixes = [''.1'', ''.100'', ''.101'', ''.102'', ''.103'', ''.104'', ''.105'', ''.110'',
     ''.150'', ''.200'', ''.2'', ''.3'', ''.4'', ''.5'', ''.6'', ''.7'', ''.8'', ''.9'', ''.10'',
     ''.11'', ''.12'', ''.13'', ''.14'', ''.15'', ''.16'', ''.17'', ''.18'', ''.19'', ''.20'',
     ''.21'']"
  unfolding suffixes_def scannedIPs_eq by (simp add: show_nat.simps digit_char_def)

lemma candidates_suffixes: "candidates b = map (\<lambda>d. b @ d) suffixes"
  by (simp add: candidates_def address_def suffixes_def comp_def)

lemma distinct_suffixes: "distinct suffixes"
  unfolding suffixes_eq by simp

lemma distinct_candidates: "distinct (candidates b)"
  unfolding candidates_suffixes using distinct_suffixes
  by (simp add: distinct_map inj_on_def)

lemma length_candidates: "length (candidates b) = 30"
  by (simp add: candidates_def scannedIPs_eq)

text \<open>A string ending in a dot and a dot-free tail splits in one way only.\<close>

lemma last_dot_unique:
  assumes "CHR ''.'' \<notin> set ds" "CHR ''.'' \<notin> set es"
    and "b @ CHR ''.'' # ds = b' @ CHR ''.'' # es"
  shows "b = b' \<and> ds = es"
  using assms(3)
proof (induction b arbitrary: b')
  case Nil
  show ?case
  proof (cases b')
    case Nil
    with Nil.prems show ?thesis by simp
  next
    case (Cons c cs)
    with Nil.prems have "ds = cs @ CHR ''.'' # es" by simp
    with assms(1) show ?thesis by simp
  qed
next
  case (Cons a b)
  show ?case
  proof (cases b')
    case Nil
    with Cons.prems have "es = b @ CHR ''.'' # ds" by simp
    with assms(2) show ?thesis by simp
  next
    case (Cons c cs)
    with Cons.prems Cons.IH [of cs] show ?thesis by simp
  qed
qed

lemma suffix_shape: "d \<in> set suffixes \<Longrightarrow> \<exists>ds. d = CHR ''.'' # ds \<and> CHR ''.'' \<notin> set ds"
  unfolding suffixes_eq by auto

lemma address_unique:
  assumes "d \<in> set suffixes" "e \<in> set suffixes" "b @ d = b' @ e"
  shows "b = b' \<and> d = e"
proof -
  obtain ds where d: "d = CHR ''.'' # ds" "CHR ''.'' \<notin> set ds"
    using suffix_shape [OF assms(1)] by blast
  obtain es where e: "e = CHR ''.'' # es" "CHR ''.'' \<notin> set es"
    using suffix_shape [OF assms(2)] by blast
  from assms(3) have "b @ CHR ''.'' # ds = b' @ CHR ''.'' # es"
    unfolding d(1) e(1) .
  with d e show ?thesis
    using last_dot_unique [of ds es b b'] by blast
qed

lemma distinct_all_candidates:
  assumes "distinct bs"
  shows "distinct (concat (map candidates bs))"
  using assms
proof (induction bs)
  case Nil
  then show ?case by simp
next
  case (Cons b bs)
  have "set (candidates b) \<inter> set (concat (map candidates bs)) = {}"
  proof (rule ccontr)
    assume "\<not> ?thesis"
    then obtain a b' where a: "a \<in> set (candidates b)" "b' \<in> set bs" "a \<in> set (candidates b')"
      by auto
    then obtain d e where "d \<in> set suffixes" "e \<in> set suffixes" "a = b @ d" "a = b' @ e"
      unfolding candidates_suffixes by auto
    then have "b = b'" using address_unique by metis
    with a(2) Cons.prems show False by simp
  qed
  with Cons show ?case by (simp add: distinct_candidates)
qed

text \<open>
  C1. For every subnet base, the candidate sequence is the base followed by a dot and
  each scanned host octet; its first ten addresses are the base with .1, .100, .101,
  .102, .103, .104, .105, .110, .150, .200 in that order; the octets after them are the
  smallest octets of 1..254 outside the priority list, ascending, which are 2, 3, ..., 21;
  the sequence has at most 30 addresses (exactly 30), no address twice, and every host
  octet lies in 1..254.
\<close>

theorem candidates_priority_then_ascending:
  "candidates b = map (\<lambda>i. b @ ''.'' @ show_nat i) scannedIPs
   \<and> take 10 (candidates b) =
       map (\<lambda>d. b @ d) [''.1'', ''.100'', ''.101'', ''.102'', ''.103'', ''.104'', ''.105'',
         ''.110'', ''.150'', ''.200'']
   \<and> take 10 scannedIPs = priorityIPs
   \<and> drop 10 scannedIPs = take 20 (filter (\<lambda>i. i \<notin> set priorityIPs) [1..<255])
   \<and> drop 10 scannedIPs = [2..<22]
   \<and> drop 10 (candidates b) =
       map (\<lambda>d. b @ d) [''.2'', ''.3'', ''.4'', ''.5'', ''.6'', ''.7'', ''.8'', ''.9'', ''.10'',
         ''.11'', ''.12'', ''.13'', ''.14'', ''.15'', ''.16'', ''.17'', ''.18'', ''.19'', ''.20'',
         ''.21'']
   \<and> length (candidates b) \<le> 30
   \<and> distinct (candidates b)
   \<and> list_all (\<lambda>i. 1 \<le> i \<and> i \<le> 254) scannedIPs"
proof -
  have c1: "candidates b = map (\<lambda>i. b @ ''.'' @ show_nat i) scannedIPs"
    by (simp add: candidates_def address_def)
  have c2: "take 10 (candidates b) =
       map (\<lambda>d. b @ d) [''.1'', ''.100'', ''.101'', ''.102'', ''.103'', ''.104'', ''.105'',
         ''.110'', ''.150'', ''.200'']"
    unfolding candidates_suffixes suffixes_eq by simp
  have c3: "take 10 scannedIPs = priorityIPs"
    by (simp add: scannedIPs_eq priorityIPs_def)
  have c5: "drop 10 scannedIPs = [2..<22]"
    unfolding scannedIPs_eq by (simp add: upt_conv_Cons)
  have "take 20 (filter (\<lambda>i. i \<notin> set priorityIPs) [1..<255]) = [2..<22]"
    by code_simp
  with c5 have c4: "drop 10 scannedIPs = take 20 (filter (\<lambda>i. i \<notin> set priorityIPs) [1..<255])"
    by simp
  have c6: "drop 10 (candidates b) =
       map (\<lambda>d. b @ d) [''.2'', ''.3'', ''.4'', ''.5'', ''.6'', ''.7'', ''.8'', ''.9'', ''.10'',
         ''.11'', ''.12'', ''.13'', ''.14'', ''.15'', ''.16'', ''.17'', ''.18'', ''.19'', ''.20'',
         ''.21'']"
    unfolding candidates_suffixes suffixes_eq by simp
  have c7: "length (candidates b) \<le> 30"
    by (simp add: length_candidates)
  have c8: "list_all (\<lambda>i. 1 \<le> i \<and> i \<le> 254) scannedIPs"
    unfolding scannedIPs_eq by simp
  from c1 c2 c3 c4 c5 c6 c7 c8 distinct_candidates [of b] show ?thesis
    by (simp only: simp_thms)
qed

section \<open>Properties of the probe\<close>

lemma show_nat_8080: "show_nat 8080 = ''8080''"
  by (simp add: show_nat.simps digit_char_def)

lemma health_coords_differ: "probeURL host p ''/health'' \<noteq> probeURL host p ''/coords''"
  by (simp add: probeURL_def)

lemma fetchWithin_answer:
  "net url = (l, r) \<Longrightarrow> s + l < d \<Longrightarrow> fetchWithin d s net url = (s + l, r)"
  by (simp add: fetchWithin_def)

lemma fetchWithin_late:
  "net url = (l, r) \<Longrightarrow> d \<le> s + l \<Longrightarrow> fetchWithin d s net url = (d, Rejects Aborted)"
  by (simp add: fetchWithin_def)

lemma testServer_fulfils: "\<exists>t v. testServer net host p = (t, Inr v)"
proof (cases "testServerTry net host p")
  case (Pair t r)
  then show ?thesis by (cases r) (simp_all add: testServer_def)
qed

lemma testServer_probeResult: "snd (testServer net a p) = Inr (probeResult net p a)"
proof -
  obtain t v where "testServer net a p = (t, Inr v)" using testServer_fulfils by blast
  then show ?thesis by (simp add: probeResult_def)
qed

lemma testServer_health_rejects:
  "fetchWithin 1500 0 net (probeURL host p ''/health'') = (t, Rejects f)
   \<Longrightarrow> testServer net host p = (t, Inr None)"
  by (simp add: testServer_def testServerTry_def)

lemma testServer_health_not_ok:
  "fetchWithin 1500 0 net (probeURL host p ''/health'') = (t, Response False b)
   \<Longrightarrow> testServer net host p = (t, Inr None)"
  by (simp add: testServer_def testServerTry_def)

lemma testServer_coords_rejects:
  "fetchWithin 1500 0 net (probeURL host p ''/health'') = (t1, Response True b)
   \<Longrightarrow> fetchWithin 1500 t1 net (probeURL host p ''/coords'') = (t2, Rejects f)
   \<Longrightarrow> testServer net host p = (t2, Inr None)"
  by (simp add: testServer_def testServerTry_def)

lemma testServer_coords_not_ok:
  "fetchWithin 1500 0 net (probeURL host p ''/health'') = (t1, Response True b)
   \<Longrightarrow> fetchWithin 1500 t1 net (probeURL host p ''/coords'') = (t2, Response False c)
   \<Longrightarrow> testServer net host p = (t2, Inr (Some \<lparr>ip = host, port = p,
             playerName = JStr ''Player Offline'', isOnline = False\<rparr>))"
  by (simp add: testServer_def testServerTry_def)

lemma testServer_coords_not_json:
  "fetchWithin 1500 0 net (probeURL host p ''/health'') = (t1, Response True b)
   \<Longrightarrow> fetchWithin 1500 t1 net (probeURL host p ''/coords'') = (t2, Response True None)
   \<Longrightarrow> testServer net host p = (t2, Inr None)"
  by (simp add: testServer_def testServerTry_def)

lemma testServer_coords_ok:
  "fetchWithin 1500 0 net (probeURL host p ''/health'') = (t1, Response True b)
   \<Longrightarrow> fetchWithin 1500 t1 net (probeURL host p ''/coords'') = (t2, Response True (Some coords))
   \<Longrightarrow> testServer net host p =
         (t2, case getProp coords ''playerName'' of
                Inl e \<Rightarrow> Inr None
              | Inr v \<Rightarrow> Inr (Some \<lparr>ip = host, port = p,
                  playerName = orDefault v (JStr ''Unknown Player''), isOnline = True\<rparr>))"
  by (simp add: testServer_def testServerTry_def split: sum.splits)

lemma probeResult_endpoint:
  assumes "probeResult net p a = Some v"
  shows "ip v = a \<and> port v = p"
proof -
  from assms have r: "snd (testServer net a p) = Inr (Some v)"
    by (simp add: testServer_probeResult)
  obtain t1 r1 where h: "fetchWithin 1500 0 net (probeURL a p ''/health'') = (t1, r1)"
    by (cases "fetchWithin 1500 0 net (probeURL a p ''/health'')")
  show ?thesis
  proof (cases r1)
    case (Rejects f)
    with h r testServer_health_rejects [of net a p t1 f] show ?thesis by simp
  next
    case (Response ok1 b1)
    show ?thesis
    proof (cases ok1)
      case False
      with h r Response testServer_health_not_ok [of net a p t1 b1] show ?thesis by simp
    next
      case True
      obtain t2 r2 where c: "fetchWithin 1500 t1 net (probeURL a p ''/coords'') = (t2, r2)"
        by (cases "fetchWithin 1500 t1 net (probeURL a p ''/coords'')")
      show ?thesis
      proof (cases r2)
        case (Rejects f)
        with h c r Response True testServer_coords_rejects [of net a p t1 b1 t2 f]
        show ?thesis by simp
      next
        case resp2: (Response ok2 b2)
        show ?thesis
        proof (cases ok2)
          case False
          with h c r Response True resp2 testServer_coords_not_ok [of net a p t1 b1 t2 b2]
          show ?thesis by auto
        next
          case ok2: True
          show ?thesis
          proof (cases b2)
            case None
            with h c r Response True resp2 ok2 testServer_coords_not_json [of net a p t1 b1 t2]
            show ?thesis by simp
          next
            case (Some coords)
            with h c r Response True resp2 ok2 testServer_coords_ok [of net a p t1 b1 t2 coords]
            show ?thesis by (auto split: sum.splits)
          qed
        qed
      qed
    qed
  qed
qed

text \<open>
  C4. For every endpoint whose health request fails (it takes 1500 ms or longer, so
  the abort timer fires; the fetch rejects; or the response status is outside
  200..299), the probe yields nothing (\<^verbatim>\<open>null\<close>), whatever the network would
  have answered to the coordinates request; and for every endpoint the probe's promise
  is fulfilled, never rejected.
\<close>
theorem testServer_health_failure_absent:
  assumes "net (probeURL host p ''/health'') = (latency, resp)"
    and "1500 \<le> latency \<or> (\<exists>f. resp = Rejects f) \<or> (\<exists>body. resp = Response False body)"
  shows "snd (testServer net host p) = Inr None
    \<and> snd (testServer (net(probeURL host p ''/coords'' := answer)) host p) = Inr None
    \<and> (\<exists>t v. testServer net host p = (t, Inr v))"
proof -
  have gen: "snd (testServer n host p) = Inr None"
    if n: "n (probeURL host p ''/health'') = (latency, resp)" for n
  proof (cases "latency < 1500")
    case False
    with n have "fetchWithin 1500 0 n (probeURL host p ''/health'') = (1500, Rejects Aborted)"
      by (simp add: fetchWithin_late)
    then show ?thesis by (simp add: testServer_health_rejects)
  next
    case True
    with n have f: "fetchWithin 1500 0 n (probeURL host p ''/health'') = (latency, resp)"
      using fetchWithin_answer [of n _ latency resp 0 1500] by simp
    from True assms(2) consider f' where "resp = Rejects f'" | b where "resp = Response False b"
      by auto
    then show ?thesis
    proof cases
      case 1
      with f show ?thesis by (simp add: testServer_health_rejects)
    next
      case 2
      with f show ?thesis by (simp add: testServer_health_not_ok)
    qed
  qed
  have a: "snd (testServer net host p) = Inr None"
    using gen [of net] assms(1) by simp
  have "(net(probeURL host p ''/coords'' := answer)) (probeURL host p ''/health'') = (latency, resp)"
    using assms(1) health_coords_differ by simp
  then have b: "snd (testServer (net(probeURL host p ''/coords'' := answer)) host p) = Inr None"
    by (rule gen)
  from a b testServer_fulfils show ?thesis by blast
qed

text \<open>C4 on a network where nothing answers, with any answer put at the coordinates URL.\<close>
theorem testServer_health_failure_absent_witness:
  "snd (testServer deadNet ''192.168.1.7'' 8080) = Inr None
   \<and> snd (testServer (deadNet(probeURL ''192.168.1.7'' 8080 ''/coords'' :=
         (10, Response True (Some steveCoords)))) ''192.168.1.7'' 8080) = Inr None"
proof -
  have h: "deadNet (probeURL ''192.168.1.7'' 8080 ''/health'') = (0, Rejects NetworkError)"
    by (simp add: deadNet_def)
  have f: "1500 \<le> (0::nat) \<or> (\<exists>f. Rejects NetworkError = Rejects f)
      \<or> (\<exists>body. Rejects NetworkError = Response False body)"
    by simp
  from testServer_health_failure_absent [of deadNet "''192.168.1.7''" 8080 0 "Rejects NetworkError", OF h f]
  show ?thesis by blast
qed

text \<open>
  C3, as the code has it. Where the health request succeeds: a coordinates response
  inside the 1500 ms budget with a status outside 200..299 gives the result with
  \<^verbatim>\<open>isOnline: false\<close> and \<^verbatim>\<open>playerName: "Player Offline"\<close>; a coordinates fetch that
  rejects inside the budget, a coordinates answer that the one 1500 ms timer of the
  probe cuts off (the two requests together take 1500 ms or longer), a body that is
  not JSON and a body that is \<^verbatim>\<open>null\<close> are thrown inside the \<^verbatim>\<open>try\<close> block and
  caught, so the probe yields nothing.
\<close>
theorem testServer_coords_outcomes:
  assumes "net (probeURL host p ''/health'') = (l1, Response True healthBody)"
    and "l1 < 1500"
    and "net (probeURL host p ''/coords'') = (l2, resp)"
  shows "(l1 + l2 < 1500 \<and> (\<exists>body. resp = Response False body) \<longrightarrow>
           testServer net host p = (l1 + l2, Inr (Some \<lparr>ip = host, port = p,
             playerName = JStr ''Player Offline'', isOnline = False\<rparr>)))
    \<and> (l1 + l2 < 1500 \<and> (\<exists>f. resp = Rejects f) \<longrightarrow>
           testServer net host p = (l1 + l2, Inr None))
    \<and> (1500 \<le> l1 + l2 \<longrightarrow> testServer net host p = (1500, Inr None))
    \<and> (l1 + l2 < 1500 \<and> resp = Response True None \<longrightarrow>
           testServer net host p = (l1 + l2, Inr None))
    \<and> (l1 + l2 < 1500 \<and> resp = Response True (Some JNull) \<longrightarrow>
           testServer net host p = (l1 + l2, Inr None))"
proof -
  from assms(1,2) have h: "fetchWithin 1500 0 net (probeURL host p ''/health'') =
      (l1, Response True healthBody)"
    by (simp add: fetchWithin_def)
  have c: "fetchWithin 1500 l1 net (probeURL host p ''/coords'') = (l1 + l2, resp)"
    if "l1 + l2 < 1500"
    using that assms(3) by (simp add: fetchWithin_answer)
  have 1: "l1 + l2 < 1500 \<and> (\<exists>body. resp = Response False body) \<longrightarrow>
           testServer net host p = (l1 + l2, Inr (Some \<lparr>ip = host, port = p,
             playerName = JStr ''Player Offline'', isOnline = False\<rparr>))"
    using h c testServer_coords_not_ok [of net host p l1 healthBody "l1 + l2"] by auto
  have 2: "l1 + l2 < 1500 \<and> (\<exists>f. resp = Rejects f) \<longrightarrow>
           testServer net host p = (l1 + l2, Inr None)"
    using h c testServer_coords_rejects [of net host p l1 healthBody "l1 + l2"] by auto
  have 3: "1500 \<le> l1 + l2 \<longrightarrow> testServer net host p = (1500, Inr None)"
  proof
    assume "1500 \<le> l1 + l2"
    with assms(3) have "fetchWithin 1500 l1 net (probeURL host p ''/coords'') =
        (1500, Rejects Aborted)"
      by (simp add: fetchWithin_late)
    with h show "testServer net host p = (1500, Inr None)"
      by (rule testServer_coords_rejects)
  qed
  have 4: "l1 + l2 < 1500 \<and> resp = Response True None \<longrightarrow>
           testServer net host p = (l1 + l2, Inr None)"
    using h c testServer_coords_not_json [of net host p l1 healthBody "l1 + l2"] by auto
  have 5: "l1 + l2 < 1500 \<and> resp = Response True (Some JNull) \<longrightarrow>
           testServer net host p = (l1 + l2, Inr None)"
    using h c testServer_coords_ok [of net host p l1 healthBody "l1 + l2" JNull] by auto
  from 1 2 3 4 5 show ?thesis by blast
qed

text \<open>
  C3 on the LAN example, where 192.168.1.100 is healthy and refuses the coordinates
  request, and on the slow host, whose coordinates answer the timer cuts off.
\<close>
theorem testServer_coords_outcomes_witness:
  "testServer lanNet ''192.168.1.100'' 8080 = (20, Inr (Some \<lparr>ip = ''192.168.1.100'', port = 8080,
             playerName = JStr ''Player Offline'', isOnline = False\<rparr>))
   \<and> testServer slowNet ''192.168.1.100'' 8080 = (1500, Inr None)"
proof -
  have h: "lanNet (probeURL ''192.168.1.100'' 8080 ''/health'') =
      (10, Response True (Some (JObj [(''status'', JStr ''ok''), (''timestamp'', JNum 1000)])))"
    by (simp add: lanNet_def probeURL_def show_nat_8080)
  have c: "lanNet (probeURL ''192.168.1.100'' 8080 ''/coords'') = (10, Response False None)"
    by (simp add: lanNet_def probeURL_def show_nat_8080)
  have t: "(10::nat) < 1500" by simp
  from testServer_coords_outcomes [of lanNet "''192.168.1.100''" 8080 10 _ 10 "Response False None", OF h t c]
  have a: "testServer lanNet ''192.168.1.100'' 8080 = (20, Inr (Some \<lparr>ip = ''192.168.1.100'',
      port = 8080, playerName = JStr ''Player Offline'', isOnline = False\<rparr>))"
    by simp
  have h': "slowNet (probeURL ''192.168.1.100'' 8080 ''/health'') =
      (900, Response True (Some (JObj [(''status'', JStr ''ok''), (''timestamp'', JNum 1000)])))"
    by (simp add: slowNet_def probeURL_def show_nat_8080)
  have c': "slowNet (probeURL ''192.168.1.100'' 8080 ''/coords'') =
      (900, Response True (Some (JObj [(''playerName'', JStr ''Steve'')])))"
    by (simp add: slowNet_def probeURL_def show_nat_8080)
  have t': "(900::nat) < 1500" by simp
  from testServer_coords_outcomes [of slowNet "''192.168.1.100''" 8080 900 _ 900
      "Response True (Some (JObj [(''playerName'', JStr ''Steve'')]))", OF h' t' c']
  have b: "testServer slowNet ''192.168.1.100'' 8080 = (1500, Inr None)"
    by simp
  from a b show ?thesis by simp
qed

lemma coordsDownNet_health:
  "coordsDownNet (probeURL ''192.168.1.100'' 8080 ''/health'') =
      (10, Response True (Some (JObj [(''status'', JStr ''ok''), (''timestamp'', JNum 1000)])))"
  by (simp add: coordsDownNet_def probeURL_def show_nat_8080)

lemma coordsDownNet_other:
  "url \<noteq> ''http://192.168.1.100:8080/health'' \<Longrightarrow> coordsDownNet url = (10, Rejects NetworkError)"
  by (simp add: coordsDownNet_def)

lemma coordsDownNet_coords:
  "coordsDownNet (probeURL ''192.168.1.100'' 8080 ''/coords'') = (10, Rejects NetworkError)"
  by (simp add: coordsDownNet_def probeURL_def show_nat_8080)

lemma coordsDownNet_absent: "testServer coordsDownNet ''192.168.1.100'' 8080 = (20, Inr None)"
proof -
  have fh: "fetchWithin 1500 0 coordsDownNet (probeURL ''192.168.1.100'' 8080 ''/health'') =
      (10, Response True (Some (JObj [(''status'', JStr ''ok''), (''timestamp'', JNum 1000)])))"
    using coordsDownNet_health by (simp add: fetchWithin_def)
  have fc: "fetchWithin 1500 10 coordsDownNet (probeURL ''192.168.1.100'' 8080 ''/coords'') =
      (20, Rejects NetworkError)"
    using coordsDownNet_coords by (simp add: fetchWithin_def)
  from fh fc show ?thesis by (rule testServer_coords_rejects)
qed

text \<open>
  C3 as stated fails: on \<open>coordsDownNet\<close> the health request succeeds, the coordinates
  request fails with a network error after 20 ms of the 1500 ms budget, and the probe
  yields nothing instead of the offline result.
\<close>
theorem testServer_coords_network_error_absent:
  "coordsDownNet (probeURL ''192.168.1.100'' 8080 ''/health'') =
      (10, Response True (Some (JObj [(''status'', JStr ''ok''), (''timestamp'', JNum 1000)])))
   \<and> coordsDownNet (probeURL ''192.168.1.100'' 8080 ''/coords'') = (10, Rejects NetworkError)
   \<and> testServer coordsDownNet ''192.168.1.100'' 8080 = (20, Inr None)"
  using coordsDownNet_health coordsDownNet_coords coordsDownNet_absent by simp

text \<open>
  The probe at the level of the network: it yields a server exactly for an address that
  completes the exchange, and then the entry read off the coordinates answer.
\<close>

lemma getProp_not_null: "coords \<noteq> JNull \<Longrightarrow> \<exists>v. getProp coords k = Inr v"
  by (cases coords) simp_all

lemma probeResult_completes:
  "probeResult net p a = (if completesProbe net p a then Some (listedAs net p a) else None)"
proof -
  obtain l1 r1 where n1: "net (probeURL a p ''/health'') = (l1, r1)"
    by (cases "net (probeURL a p ''/health'')")
  obtain l2 r2 where n2: "net (probeURL a p ''/coords'') = (l2, r2)"
    by (cases "net (probeURL a p ''/coords'')")
  have cp: "completesProbe net p a = (healthy r1 \<and> listable r2 \<and> l1 + l2 < 1500)"
    by (simp add: completesProbe_def n1 n2)
  show ?thesis
  proof (cases "l1 < 1500")
    case False
    with n1 have "fetchWithin 1500 0 net (probeURL a p ''/health'') = (1500, Rejects Aborted)"
      by (simp add: fetchWithin_late)
    then have "probeResult net p a = None"
      by (simp add: probeResult_def testServer_health_rejects)
    with False cp show ?thesis by simp
  next
    case True
    with n1 have h: "fetchWithin 1500 0 net (probeURL a p ''/health'') = (l1, r1)"
      by (simp add: fetchWithin_def)
    show ?thesis
    proof (cases r1)
      case (Rejects f)
      with h have "probeResult net p a = None"
        by (simp add: probeResult_def testServer_health_rejects)
      with Rejects cp show ?thesis by (simp add: healthy_def)
    next
      case (Response ok1 b1)
      show ?thesis
      proof (cases ok1)
        case False
        with h Response have "probeResult net p a = None"
          by (simp add: probeResult_def testServer_health_not_ok)
        with False Response cp show ?thesis by (simp add: healthy_def)
      next
        case ok1: True
        with h Response have h': "fetchWithin 1500 0 net (probeURL a p ''/health'') =
            (l1, Response True b1)" by simp
        from ok1 Response have hl: "healthy r1" by (simp add: healthy_def)
        show ?thesis
        proof (cases "l1 + l2 < 1500")
          case False
          with n2 have "fetchWithin 1500 l1 net (probeURL a p ''/coords'') = (1500, Rejects Aborted)"
            by (simp add: fetchWithin_late)
          with h' have "testServer net a p = (1500, Inr None)"
            by (rule testServer_coords_rejects)
          then have "probeResult net p a = None" by (simp add: probeResult_def)
          with False cp show ?thesis by simp
        next
          case inTime: True
          with n2 have c: "fetchWithin 1500 l1 net (probeURL a p ''/coords'') = (l1 + l2, r2)"
            by (simp add: fetchWithin_answer)
          show ?thesis
          proof (cases r2)
            case (Rejects f)
            with h' c have "testServer net a p = (l1 + l2, Inr None)"
              by (simp add: testServer_coords_rejects)
            then have "probeResult net p a = None" by (simp add: probeResult_def)
            with Rejects cp show ?thesis by (simp add: listable_def)
          next
            case r2: (Response ok2 b2)
            show ?thesis
            proof (cases ok2)
              case False
              with h' c r2 have "testServer net a p = (l1 + l2, Inr (Some \<lparr>ip = a, port = p,
                  playerName = JStr ''Player Offline'', isOnline = False\<rparr>))"
                by (simp add: testServer_coords_not_ok)
              then have "probeResult net p a = Some \<lparr>ip = a, port = p,
                  playerName = JStr ''Player Offline'', isOnline = False\<rparr>"
                by (simp add: probeResult_def)
              with False r2 cp hl inTime n2 show ?thesis
                by (simp add: listable_def listedAs_def)
            next
              case ok2: True
              show ?thesis
              proof (cases b2)
                case None
                with h' c r2 ok2 have "testServer net a p = (l1 + l2, Inr None)"
                  by (simp add: testServer_coords_not_json)
                then have "probeResult net p a = None" by (simp add: probeResult_def)
                with None r2 ok2 cp show ?thesis by (simp add: listable_def)
              next
                case (Some coords)
                with h' c r2 ok2 have t: "testServer net a p =
                    (l1 + l2, case getProp coords ''playerName'' of
                       Inl e \<Rightarrow> Inr None
                     | Inr v \<Rightarrow> Inr (Some \<lparr>ip = a, port = p,
                         playerName = orDefault v (JStr ''Unknown Player''), isOnline = True\<rparr>))"
                  by (simp add: testServer_coords_ok)
                show ?thesis
                proof (cases "coords = JNull")
                  case True
                  with t have "probeResult net p a = None" by (simp add: probeResult_def)
                  with True Some r2 ok2 cp show ?thesis by (simp add: listable_def)
                next
                  case False
                  then obtain v where v: "getProp coords ''playerName'' = Inr v"
                    using getProp_not_null by blast
                  with t have "probeResult net p a = Some \<lparr>ip = a, port = p,
                      playerName = orDefault v (JStr ''Unknown Player''), isOnline = True\<rparr>"
                    by (simp add: probeResult_def)
                  with False Some r2 ok2 cp hl inTime n2 v show ?thesis
                    by (simp add: listable_def listedAs_def)
                qed
              qed
            qed
          qed
        qed
      qed
    qed
  qed
qed


section \<open>Properties of the subnet resolver\<close>

lemma distinct_bases: "distinct bases"
  by (simp add: bases_def)

lemma getLocalNetworkBases_Inl:
  "getLocalNetworkBasesTry net = Inl e \<Longrightarrow> getLocalNetworkBases net = Inr bases"
  by (simp add: getLocalNetworkBases_def)

lemma getLocalNetworkBases_None:
  "getLocalNetworkBasesTry net = Inr None \<Longrightarrow> getLocalNetworkBases net = Inr bases"
  by (simp add: getLocalNetworkBases_def)

lemma getLocalNetworkBasesTry_rejects:
  "fetchWithin 3000 0 net lookupURL = (t, Rejects f)
   \<Longrightarrow> getLocalNetworkBasesTry net = Inl (FetchError f)"
  by (simp add: getLocalNetworkBasesTry_def)

lemma getLocalNetworkBasesTry_not_ok:
  "fetchWithin 3000 0 net lookupURL = (t, Response False body)
   \<Longrightarrow> getLocalNetworkBasesTry net = Inr None"
  by (simp add: getLocalNetworkBasesTry_def)

lemma getLocalNetworkBasesTry_not_json:
  "fetchWithin 3000 0 net lookupURL = (t, Response True None)
   \<Longrightarrow> getLocalNetworkBasesTry net = Inl SyntaxError"
  by (simp add: getLocalNetworkBasesTry_def)

lemma getLocalNetworkBasesTry_no_string:
  assumes "fetchWithin 3000 0 net lookupURL = (t, Response True (Some data))"
    and "\<forall>s. getProp data ''ip'' \<noteq> Inr (Some (JStr s))"
  shows "\<exists>e. getLocalNetworkBasesTry net = Inl e"
proof (cases "getProp data ''ip''")
  case (Inl e)
  with assms(1) show ?thesis by (simp add: getLocalNetworkBasesTry_def)
next
  case (Inr v)
  show ?thesis
  proof (cases v)
    case None
    with Inr assms(1) show ?thesis by (simp add: getLocalNetworkBasesTry_def)
  next
    case (Some j)
    with Inr assms(2) have "\<forall>s. j \<noteq> JStr s" by simp
    with Some Inr assms(1) show ?thesis
      by (cases j) (simp_all add: getLocalNetworkBasesTry_def)
  qed
qed

lemma getLocalNetworkBasesTry_string:
  assumes "fetchWithin 3000 0 net lookupURL = (t, Response True (Some data))"
    and "getProp data ''ip'' = Inr (Some (JStr s))"
  shows "getLocalNetworkBasesTry net =
     (if length (split_dot s) = 4
         \<and> (startsWith (join_dot (take 3 (split_dot s))) ''192.168.''
            \<or> startsWith (join_dot (take 3 (split_dot s))) ''10.''
            \<or> startsWith (join_dot (take 3 (split_dot s))) ''172.'')
      then Inr (Some (join_dot (take 3 (split_dot s))
             # filter (\<lambda>b. b \<noteq> join_dot (take 3 (split_dot s))) bases))
      else Inr None)"
  using assms by (simp add: getLocalNetworkBasesTry_def Let_def)

lemma getLocalNetworkBases_shape:
  "getLocalNetworkBases net = Inr bases
   \<or> (\<exists>b. getLocalNetworkBases net = Inr (b # filter (\<lambda>x. x \<noteq> b) bases))"
proof -
  obtain t r where f: "fetchWithin 3000 0 net lookupURL = (t, r)"
    by (cases "fetchWithin 3000 0 net lookupURL")
  show ?thesis
  proof (cases r)
    case (Rejects x)
    with f have "getLocalNetworkBasesTry net = Inl (FetchError x)"
      by (simp add: getLocalNetworkBasesTry_rejects)
    then show ?thesis by (simp add: getLocalNetworkBases_Inl)
  next
    case (Response ok body)
    show ?thesis
    proof (cases ok)
      case False
      with f Response have "getLocalNetworkBasesTry net = Inr None"
        by (simp add: getLocalNetworkBasesTry_not_ok)
      then show ?thesis by (simp add: getLocalNetworkBases_None)
    next
      case True
      show ?thesis
      proof (cases body)
        case None
        with f Response True have "getLocalNetworkBasesTry net = Inl SyntaxError"
          by (simp add: getLocalNetworkBasesTry_not_json)
        then show ?thesis by (simp add: getLocalNetworkBases_Inl)
      next
        case (Some data)
        with f Response True
        have d: "fetchWithin 3000 0 net lookupURL = (t, Response True (Some data))" by simp
        show ?thesis
        proof (cases "\<exists>s. getProp data ''ip'' = Inr (Some (JStr s))")
          case False
          then have "\<forall>s. getProp data ''ip'' \<noteq> Inr (Some (JStr s))" by blast
          from getLocalNetworkBasesTry_no_string [OF d this]
          obtain e where "getLocalNetworkBasesTry net = Inl e" by blast
          then show ?thesis by (simp add: getLocalNetworkBases_Inl)
        next
          case True
          then obtain s where "getProp data ''ip'' = Inr (Some (JStr s))" by blast
          from getLocalNetworkBasesTry_string [OF d this] show ?thesis
            by (auto simp: getLocalNetworkBases_def)
        qed
      qed
    qed
  qed
qed

lemma getLocalNetworkBases_total:
  "\<exists>bs. getLocalNetworkBases net = Inr bs \<and> bs \<noteq> [] \<and> distinct bs"
  using getLocalNetworkBases_shape [of net] distinct_bases
  by (auto simp: bases_def)

text \<open>
  C6, as the code has it. The resolver returns the unmodified default list when the
  lookup takes 3000 ms or longer or its fetch rejects, when the response status is
  outside 200..299, when the body is not JSON, when the parsed body has no string
  under \<^verbatim>\<open>ip\<close>, when that string does not split at its dots into exactly four
  pieces, and when the first three pieces joined by dots start with none of
  \<^verbatim>\<open>192.168.\<close>, \<^verbatim>\<open>10.\<close>, \<^verbatim>\<open>172.\<close>. In every case it returns a non-empty list and
  never throws.
\<close>
theorem getLocalNetworkBases_fallback:
  assumes "net lookupURL = (latency, resp)"
  shows "(3000 \<le> latency \<or> (\<exists>f. resp = Rejects f) \<longrightarrow> getLocalNetworkBases net = Inr bases)
    \<and> ((\<exists>body. resp = Response False body) \<longrightarrow> getLocalNetworkBases net = Inr bases)
    \<and> (resp = Response True None \<longrightarrow> getLocalNetworkBases net = Inr bases)
    \<and> (\<forall>data. resp = Response True (Some data) \<and> (\<forall>s. getProp data ''ip'' \<noteq> Inr (Some (JStr s)))
          \<longrightarrow> getLocalNetworkBases net = Inr bases)
    \<and> (\<forall>data s. resp = Response True (Some data) \<and> getProp data ''ip'' = Inr (Some (JStr s))
          \<and> length (split_dot s) \<noteq> 4 \<longrightarrow> getLocalNetworkBases net = Inr bases)
    \<and> (\<forall>data s. resp = Response True (Some data) \<and> getProp data ''ip'' = Inr (Some (JStr s))
          \<and> \<not> startsWith (join_dot (take 3 (split_dot s))) ''192.168.''
          \<and> \<not> startsWith (join_dot (take 3 (split_dot s))) ''10.''
          \<and> \<not> startsWith (join_dot (take 3 (split_dot s))) ''172.''
          \<longrightarrow> getLocalNetworkBases net = Inr bases)
    \<and> (\<exists>bs. getLocalNetworkBases net = Inr bs \<and> bs \<noteq> [])"
proof (cases "latency < 3000")
  case False
  with assms have "fetchWithin 3000 0 net lookupURL = (3000, Rejects Aborted)"
    by (simp add: fetchWithin_late)
  then have "getLocalNetworkBases net = Inr bases"
    using getLocalNetworkBasesTry_rejects getLocalNetworkBases_Inl by blast
  then show ?thesis by (simp add: bases_def)
next
  case True
  with assms have f: "fetchWithin 3000 0 net lookupURL = (latency, resp)"
    by (simp add: fetchWithin_def)
  have 1: "3000 \<le> latency \<or> (\<exists>f. resp = Rejects f) \<longrightarrow> getLocalNetworkBases net = Inr bases"
  proof
    assume "3000 \<le> latency \<or> (\<exists>f. resp = Rejects f)"
    with True obtain x where "resp = Rejects x" by auto
    with f have "getLocalNetworkBasesTry net = Inl (FetchError x)"
      by (simp add: getLocalNetworkBasesTry_rejects)
    then show "getLocalNetworkBases net = Inr bases" by (simp add: getLocalNetworkBases_Inl)
  qed
  have 2: "(\<exists>body. resp = Response False body) \<longrightarrow> getLocalNetworkBases net = Inr bases"
  proof
    assume "\<exists>body. resp = Response False body"
    then obtain body where "resp = Response False body" by blast
    with f have "getLocalNetworkBasesTry net = Inr None"
      by (simp add: getLocalNetworkBasesTry_not_ok)
    then show "getLocalNetworkBases net = Inr bases" by (simp add: getLocalNetworkBases_None)
  qed
  have 3: "resp = Response True None \<longrightarrow> getLocalNetworkBases net = Inr bases"
  proof
    assume "resp = Response True None"
    with f have "getLocalNetworkBasesTry net = Inl SyntaxError"
      by (simp add: getLocalNetworkBasesTry_not_json)
    then show "getLocalNetworkBases net = Inr bases" by (simp add: getLocalNetworkBases_Inl)
  qed
  have 4: "\<forall>data. resp = Response True (Some data) \<and> (\<forall>s. getProp data ''ip'' \<noteq> Inr (Some (JStr s)))
          \<longrightarrow> getLocalNetworkBases net = Inr bases"
  proof (intro allI impI, elim conjE)
    fix data
    assume "resp = Response True (Some data)" and n: "\<forall>s. getProp data ''ip'' \<noteq> Inr (Some (JStr s))"
    with f have d: "fetchWithin 3000 0 net lookupURL = (latency, Response True (Some data))" by simp
    from getLocalNetworkBasesTry_no_string [OF d n]
    obtain e where "getLocalNetworkBasesTry net = Inl e" by blast
    then show "getLocalNetworkBases net = Inr bases" by (simp add: getLocalNetworkBases_Inl)
  qed
  have 5: "\<forall>data s. resp = Response True (Some data) \<and> getProp data ''ip'' = Inr (Some (JStr s))
          \<and> length (split_dot s) \<noteq> 4 \<longrightarrow> getLocalNetworkBases net = Inr bases"
  proof (intro allI impI, elim conjE)
    fix data s
    assume "resp = Response True (Some data)" and g: "getProp data ''ip'' = Inr (Some (JStr s))"
      and l: "length (split_dot s) \<noteq> 4"
    with f have d: "fetchWithin 3000 0 net lookupURL = (latency, Response True (Some data))" by simp
    from getLocalNetworkBasesTry_string [OF d g] l have "getLocalNetworkBasesTry net = Inr None"
      by simp
    then show "getLocalNetworkBases net = Inr bases" by (simp add: getLocalNetworkBases_None)
  qed
  have 6: "\<forall>data s. resp = Response True (Some data) \<and> getProp data ''ip'' = Inr (Some (JStr s))
          \<and> \<not> startsWith (join_dot (take 3 (split_dot s))) ''192.168.''
          \<and> \<not> startsWith (join_dot (take 3 (split_dot s))) ''10.''
          \<and> \<not> startsWith (join_dot (take 3 (split_dot s))) ''172.''
          \<longrightarrow> getLocalNetworkBases net = Inr bases"
  proof (intro allI impI, elim conjE)
    fix data s
    assume "resp = Response True (Some data)" and g: "getProp data ''ip'' = Inr (Some (JStr s))"
      and l: "\<not> startsWith (join_dot (take 3 (split_dot s))) ''192.168.''"
        "\<not> startsWith (join_dot (take 3 (split_dot s))) ''10.''"
        "\<not> startsWith (join_dot (take 3 (split_dot s))) ''172.''"
    with f have d: "fetchWithin 3000 0 net lookupURL = (latency, Response True (Some data))" by simp
    from getLocalNetworkBasesTry_string [OF d g] l have "getLocalNetworkBasesTry net = Inr None"
      by simp
    then show "getLocalNetworkBases net = Inr bases" by (simp add: getLocalNetworkBases_None)
  qed
  have 7: "\<exists>bs. getLocalNetworkBases net = Inr bs \<and> bs \<noteq> []"
    using getLocalNetworkBases_total by blast
  from 1 2 3 4 5 6 7 show ?thesis by blast
qed

text \<open>C6 on a network where nothing answers.\<close>
theorem getLocalNetworkBases_fallback_witness:
  "getLocalNetworkBases deadNet = Inr [''192.168.1'', ''192.168.0'', ''10.0.0'', ''172.16.0'']"
proof -
  have h: "deadNet lookupURL = (0, Rejects NetworkError)" by (simp add: deadNet_def)
  from getLocalNetworkBases_fallback [of deadNet 0 "Rejects NetworkError", OF h]
  have "getLocalNetworkBases deadNet = Inr bases" by blast
  then show ?thesis by (simp add: bases_def)
qed

text \<open>
  C6 as stated fails for a malformed answer: the string \<^verbatim>\<open>10.x.y.z\<close> is no dotted-quad
  IPv4 address, yet it has four pieces and starts with \<^verbatim>\<open>10.\<close>, so the resolver
  returns a list headed by \<^verbatim>\<open>10.x.y\<close> rather than the default list.
\<close>
theorem getLocalNetworkBases_promotes_non_address:
  "\<not> specDottedQuad ''10.x.y.z''
   \<and> badLookupNet lookupURL = (5, Response True (Some (JObj [(''ip'', JStr ''10.x.y.z'')])))
   \<and> getLocalNetworkBases badLookupNet =
       Inr [''10.x.y'', ''192.168.1'', ''192.168.0'', ''10.0.0'', ''172.16.0'']
   \<and> getLocalNetworkBases badLookupNet \<noteq> Inr bases"
proof -
  have q: "\<not> specDottedQuad ''10.x.y.z''"
    by (simp add: specDottedQuad_def specOctet_def isDigit_def)
  have n: "badLookupNet lookupURL = (5, Response True (Some (JObj [(''ip'', JStr ''10.x.y.z'')])))"
    by (simp add: badLookupNet_def lookupURL_def)
  then have f: "fetchWithin 3000 0 badLookupNet lookupURL =
      (5, Response True (Some (JObj [(''ip'', JStr ''10.x.y.z'')])))"
    by (simp add: fetchWithin_def)
  have g: "getProp (JObj [(''ip'', JStr ''10.x.y.z'')]) ''ip'' = Inr (Some (JStr ''10.x.y.z''))"
    by simp
  have "getLocalNetworkBasesTry badLookupNet =
      Inr (Some [''10.x.y'', ''192.168.1'', ''192.168.0'', ''10.0.0'', ''172.16.0''])"
    unfolding getLocalNetworkBasesTry_string [OF f g]
    by (simp add: startsWith_def bases_def)
  then have r: "getLocalNetworkBases badLookupNet =
       Inr [''10.x.y'', ''192.168.1'', ''192.168.0'', ''10.0.0'', ''172.16.0'']"
    by (simp add: getLocalNetworkBases_def)
  from q n r show ?thesis by (simp add: bases_def)
qed

section \<open>Properties of the scanner\<close>

lemma pushFulfilled_allSettled:
  "pushFulfilled (allSettled (map (\<lambda>a. testServer net a p) as)) servers =
     servers @ List.map_filter (probeResult net p) as"
proof (induction as arbitrary: servers)
  case Nil
  then show ?case by (simp add: allSettled_def)
next
  case (Cons a as)
  obtain t v where tv: "testServer net a p = (t, Inr v)" using testServer_fulfils by blast
  then have pr: "probeResult net p a = v" by (simp add: probeResult_def)
  have step: "allSettled (map (\<lambda>a. testServer net a p) (a # as)) =
      Fulfilled v # allSettled (map (\<lambda>a. testServer net a p) as)"
    using tv by (simp add: allSettled_def)
  show ?case
  proof (cases v)
    case None
    with step pr Cons.IH show ?thesis by simp
  next
    case (Some x)
    with step pr Cons.IH show ?thesis by simp
  qed
qed

lemma scanBases_eq:
  "scanBases net p bs servers =
     servers @ concat (map (\<lambda>b. List.map_filter (probeResult net p) (candidates b)) bs)"
  by (induction bs arbitrary: servers) (simp_all add: pushFulfilled_allSettled)

lemma subnetBatch_eq: "subnetBatch net p b = List.map_filter (probeResult net p) (candidates b)"
  by (simp add: subnetBatch_def scanBases_eq)

lemma map_ip_map_filter:
  "map ip (List.map_filter (probeResult net p) as) = filter (responsive net p) as"
proof (induction as)
  case Nil
  then show ?case by simp
next
  case (Cons a as)
  show ?case
  proof (cases "probeResult net p a")
    case None
    with Cons show ?thesis by (simp add: responsive_def)
  next
    case (Some v)
    with probeResult_endpoint [OF Some] Cons show ?thesis
      by (simp add: responsive_def)
  qed
qed

lemma map_port_map_filter:
  "v \<in> set (List.map_filter (probeResult net p) as) \<Longrightarrow> port v = p"
  using probeResult_endpoint by (auto simp: List.map_filter_def)

lemma concat_map_filter:
  "concat (map (\<lambda>b. List.map_filter f (g b)) bs) = List.map_filter f (concat (map g bs))"
  by (induction bs) (simp_all add: List.map_filter_def)

lemma findServers_eq:
  assumes "getLocalNetworkBases net = Inr bs"
  shows "findServers net p = Inr (List.map_filter (probeResult net p) (concat (map candidates bs)))"
  using assms by (simp add: findServers_def scanBases_eq concat_map_filter)

lemma map_filter_if:
  "List.map_filter (\<lambda>a. if P a then Some (g a) else None) xs = map g (filter P xs)"
  by (induction xs) simp_all

lemma map_filter_probeResult:
  "List.map_filter (probeResult net p) as =
     map (listedAs net p) (filter (completesProbe net p) as)"
proof -
  have "probeResult net p =
      (\<lambda>a. if completesProbe net p a then Some (listedAs net p a) else None)"
    by (rule ext) (rule probeResult_completes)
  then show ?thesis by (simp only: map_filter_if)
qed

lemma listedAs_endpoint: "ip (listedAs net p a) = a \<and> port (listedAs net p a) = p"
  by (simp add: listedAs_def split: http.splits bool.splits option.splits)

lemma defaults_kept:
  assumes "getLocalNetworkBases net = Inr bs"
  shows "set bases \<subseteq> set bs"
  using getLocalNetworkBases_shape [of net] assms by auto

lemma deadNet_completes: "\<not> completesProbe deadNet p a"
  by (simp add: completesProbe_def deadNet_def healthy_def)

lemma lanNet_bases: "getLocalNetworkBases lanNet = Inr bases"
proof -
  have "lanNet lookupURL = (0, Rejects NetworkError)"
    by (simp add: lanNet_def lookupURL_def)
  then have "fetchWithin 3000 0 lanNet lookupURL = (0, Rejects NetworkError)"
    by (simp add: fetchWithin_def)
  then have "getLocalNetworkBasesTry lanNet = Inl (FetchError NetworkError)"
    by (rule getLocalNetworkBasesTry_rejects)
  then show ?thesis by (rule getLocalNetworkBases_Inl)
qed

lemma lanNet_completes:
  "completesProbe lanNet 8080 a = (a = ''192.168.1.1'' \<or> a = ''192.168.1.100'')"
proof (cases "a = ''192.168.1.1'' \<or> a = ''192.168.1.100''")
  case True
  then show ?thesis
    by (auto simp: completesProbe_def lanNet_def probeURL_def show_nat_8080 healthy_def
        listable_def)
next
  case False
  then have "lanNet (probeURL a 8080 ''/health'') = (0, Rejects NetworkError)"
    by (simp add: lanNet_def probeURL_def show_nat_8080)
  with False show ?thesis by (simp add: completesProbe_def healthy_def)
qed

lemma lanNet_listedAs:
  "listedAs lanNet 8080 ''192.168.1.1'' =
     \<lparr>ip = ''192.168.1.1'', port = 8080, playerName = JStr ''Steve'', isOnline = True\<rparr>
   \<and> listedAs lanNet 8080 ''192.168.1.100'' =
     \<lparr>ip = ''192.168.1.100'', port = 8080, playerName = JStr ''Player Offline'', isOnline = False\<rparr>"
  by (simp add: listedAs_def lanNet_def probeURL_def show_nat_8080 orDefault_def)

lemma coordsDownNet_completes: "\<not> completesProbe coordsDownNet 8080 a"
proof (cases "a = ''192.168.1.100''")
  case True
  then show ?thesis
    using coordsDownNet_coords by (simp add: completesProbe_def listable_def)
next
  case False
  then have "coordsDownNet (probeURL a 8080 ''/health'') = (10, Rejects NetworkError)"
    by (simp add: coordsDownNet_def probeURL_def show_nat_8080)
  then show ?thesis by (simp add: completesProbe_def healthy_def)
qed

lemma coordsDownNet_bases: "getLocalNetworkBases coordsDownNet = Inr bases"
proof -
  have "coordsDownNet lookupURL = (10, Rejects NetworkError)"
    by (simp add: coordsDownNet_def lookupURL_def)
  then have "fetchWithin 3000 0 coordsDownNet lookupURL = (10, Rejects NetworkError)"
    by (simp add: fetchWithin_def)
  then have "getLocalNetworkBasesTry coordsDownNet = Inl (FetchError NetworkError)"
    by (rule getLocalNetworkBasesTry_rejects)
  then show ?thesis by (rule getLocalNetworkBases_Inl)
qed

text \<open>
  C2, as the code has it. For every network and port the scan returns a list and
  never throws. The bases scanned include the four default ones; the candidates are,
  for each base in turn, the base followed by the thirty scanned suffixes, and are
  pairwise distinct. The list holds, in that order, exactly one entry for each
  candidate that completes the probe exchange (health answered with a 2xx and
  coordinates answered, inside the one 1500 ms budget, with a non-2xx or with a JSON body
  other than \<^verbatim>\<open>null\<close>), namely the entry read off its coordinates answer, and nothing
  else: its length is the number of such candidates, and it is empty when there is none.
\<close>
theorem findServers_lists_completed_probes:
  "\<exists>baseIPs cands out.
     getLocalNetworkBases net = Inr baseIPs
     \<and> set [''192.168.1'', ''192.168.0'', ''10.0.0'', ''172.16.0''] \<subseteq> set baseIPs
     \<and> cands = concat (map (\<lambda>b. map (\<lambda>d. b @ d)
          [''.1'', ''.100'', ''.101'', ''.102'', ''.103'', ''.104'', ''.105'', ''.110'',
           ''.150'', ''.200'', ''.2'', ''.3'', ''.4'', ''.5'', ''.6'', ''.7'', ''.8'', ''.9'',
           ''.10'', ''.11'', ''.12'', ''.13'', ''.14'', ''.15'', ''.16'', ''.17'', ''.18'',
           ''.19'', ''.20'', ''.21'']) baseIPs)
     \<and> distinct cands
     \<and> findServers net p = Inr out
     \<and> out = map (listedAs net p) (filter (completesProbe net p) cands)
     \<and> map ip out = filter (completesProbe net p) cands
     \<and> length out = card {a \<in> set cands. completesProbe net p a}
     \<and> ((\<forall>a \<in> set cands. \<not> completesProbe net p a) \<longrightarrow> out = [])"
proof -
  obtain bs where bs: "getLocalNetworkBases net = Inr bs" "distinct bs"
    using getLocalNetworkBases_total by blast
  define cands where "cands = concat (map candidates bs)"
  define out where "out = map (listedAs net p) (filter (completesProbe net p) cands)"
  have k: "set [''192.168.1'', ''192.168.0'', ''10.0.0'', ''172.16.0''] \<subseteq> set bs"
    using defaults_kept [OF bs(1)] by (simp add: bases_def)
  have c: "cands = concat (map (\<lambda>b. map (\<lambda>d. b @ d)
          [''.1'', ''.100'', ''.101'', ''.102'', ''.103'', ''.104'', ''.105'', ''.110'',
           ''.150'', ''.200'', ''.2'', ''.3'', ''.4'', ''.5'', ''.6'', ''.7'', ''.8'', ''.9'',
           ''.10'', ''.11'', ''.12'', ''.13'', ''.14'', ''.15'', ''.16'', ''.17'', ''.18'',
           ''.19'', ''.20'', ''.21'']) bs)"
    unfolding cands_def candidates_suffixes suffixes_eq ..
  have d: "distinct cands"
    unfolding cands_def using bs(2) by (rule distinct_all_candidates)
  have f: "findServers net p = Inr out"
    using findServers_eq [OF bs(1)] by (simp add: out_def cands_def map_filter_probeResult)
  have m: "map ip out = filter (completesProbe net p) cands"
    by (simp add: out_def comp_def listedAs_endpoint)
  have "length out = length (filter (completesProbe net p) cands)"
    by (simp add: out_def)
  also have "\<dots> = card ({a. completesProbe net p a} \<inter> set cands)"
    using d by (rule distinct_length_filter)
  also have "{a. completesProbe net p a} \<inter> set cands = {a \<in> set cands. completesProbe net p a}"
    by blast
  finally have l: "length out = card {a \<in> set cands. completesProbe net p a}" .
  have e: "(\<forall>a \<in> set cands. \<not> completesProbe net p a) \<longrightarrow> out = []"
    by (simp add: out_def filter_empty_conv)
  from bs(1) k c d f m l e show ?thesis unfolding out_def by blast
qed

text \<open>
  C2 on a network where nothing answers, where the scan returns the empty list, and
  on the LAN example, where it returns the two servers of the first subnet, the online
  one and the offline one.
\<close>
theorem findServers_lists_completed_probes_witness:
  "findServers deadNet 8080 = Inr []
   \<and> findServers lanNet 8080 =
       Inr [\<lparr>ip = ''192.168.1.1'', port = 8080, playerName = JStr ''Steve'', isOnline = True\<rparr>,
            \<lparr>ip = ''192.168.1.100'', port = 8080, playerName = JStr ''Player Offline'',
               isOnline = False\<rparr>]"
proof -
  have a: "findServers deadNet 8080 = Inr []"
    using findServers_lists_completed_probes [of deadNet 8080] deadNet_completes by auto
  obtain baseIPs cands out where
    b: "getLocalNetworkBases lanNet = Inr baseIPs"
    and c: "cands = concat (map (\<lambda>b. map (\<lambda>d. b @ d)
          [''.1'', ''.100'', ''.101'', ''.102'', ''.103'', ''.104'', ''.105'', ''.110'',
           ''.150'', ''.200'', ''.2'', ''.3'', ''.4'', ''.5'', ''.6'', ''.7'', ''.8'', ''.9'',
           ''.10'', ''.11'', ''.12'', ''.13'', ''.14'', ''.15'', ''.16'', ''.17'', ''.18'',
           ''.19'', ''.20'', ''.21'']) baseIPs)"
    and f: "findServers lanNet 8080 = Inr out"
    and o: "out = map (listedAs lanNet 8080) (filter (completesProbe lanNet 8080) cands)"
    using findServers_lists_completed_probes [of lanNet 8080] by blast
  from b have "baseIPs = [''192.168.1'', ''192.168.0'', ''10.0.0'', ''172.16.0'']"
    by (simp add: lanNet_bases bases_def)
  with c have "filter (completesProbe lanNet 8080) cands = [''192.168.1.1'', ''192.168.1.100'']"
    by (simp add: lanNet_completes)
  with o f have "findServers lanNet 8080 =
       Inr [\<lparr>ip = ''192.168.1.1'', port = 8080, playerName = JStr ''Steve'', isOnline = True\<rparr>,
            \<lparr>ip = ''192.168.1.100'', port = 8080, playerName = JStr ''Player Offline'',
               isOnline = False\<rparr>]"
    by (simp add: lanNet_listedAs)
  with a show ?thesis by simp
qed

text \<open>
  C2 as stated fails: on \<open>coordsDownNet\<close> the host 192.168.1.100 answers the health
  request of the scan with a 200 after 10 ms and is a candidate of the first scanned
  subnet, yet the scan returns the empty list: its coordinates request fails with a
  network error, which the probe turns into \<^verbatim>\<open>null\<close>.
\<close>
theorem findServers_omits_healthy_host:
  "coordsDownNet (probeURL ''192.168.1.100'' 8080 ''/health'') =
      (10, Response True (Some (JObj [(''status'', JStr ''ok''), (''timestamp'', JNum 1000)])))
   \<and> getLocalNetworkBases coordsDownNet =
       Inr [''192.168.1'', ''192.168.0'', ''10.0.0'', ''172.16.0'']
   \<and> ''192.168.1.100'' \<in> set (candidates ''192.168.1'')
   \<and> findServers coordsDownNet 8080 = Inr []"
proof -
  have b: "getLocalNetworkBases coordsDownNet =
       Inr [''192.168.1'', ''192.168.0'', ''10.0.0'', ''172.16.0'']"
    using coordsDownNet_bases by (simp add: bases_def)
  have c: "''192.168.1.100'' \<in> set (candidates ''192.168.1'')"
    unfolding candidates_suffixes suffixes_eq by simp
  have "filter (completesProbe coordsDownNet 8080) cs = []" for cs
    by (simp add: filter_empty_conv coordsDownNet_completes)
  then have f: "findServers coordsDownNet 8080 = Inr []"
    using findServers_eq [OF coordsDownNet_bases] by (simp add: map_filter_probeResult)
  from coordsDownNet_health b c f show ?thesis by simp
qed

text \<open>
  C10. For every scan, the endpoints (ip, port) of the returned results are pairwise
  distinct.
\<close>
theorem findServers_endpoints_distinct:
  "\<exists>out. findServers net p = Inr out \<and> distinct (map (\<lambda>v. (ip v, port v)) out)"
proof -
  obtain bs where bs: "getLocalNetworkBases net = Inr bs" "distinct bs"
    using getLocalNetworkBases_total by blast
  define cands where "cands = concat (map candidates bs)"
  define out where "out = List.map_filter (probeResult net p) cands"
  have f: "findServers net p = Inr out"
    using findServers_eq [OF bs(1)] by (simp add: out_def cands_def)
  have "distinct cands"
    unfolding cands_def using bs(2) by (rule distinct_all_candidates)
  then have "distinct (filter (responsive net p) cands)" by simp
  then have "distinct (map ip out)" by (simp add: out_def map_ip_map_filter)
  then have "distinct (map (\<lambda>v. (ip v, port v)) out)"
    by (simp add: distinct_map inj_on_def)
  with f show ?thesis by blast
qed

text \<open>
  C5, as the code has it. The scan's list is the concatenation of the subnets' batches
  in subnet order, and within a batch the results are those of the responsive
  candidates in the order in which the candidates were probed (request order),
  whenever each probe settled.
\<close>
theorem findServers_request_order:
  "\<exists>baseIPs. getLocalNetworkBases net = Inr baseIPs
     \<and> findServers net p = Inr (concat (map (subnetBatch net p) baseIPs))
     \<and> map ip (subnetBatch net p b) = filter (responsive net p) (candidates b)"
proof -
  obtain bs where bs: "getLocalNetworkBases net = Inr bs"
    using getLocalNetworkBases_total by blast
  have "(\<lambda>b. List.map_filter (probeResult net p) (candidates b)) = subnetBatch net p"
    by (rule ext) (simp add: subnetBatch_eq)
  then have "findServers net p = Inr (concat (map (subnetBatch net p) bs))"
    using bs by (simp add: findServers_def scanBases_eq)
  moreover have "map ip (subnetBatch net p b) = filter (responsive net p) (candidates b)"
    by (simp add: subnetBatch_eq map_ip_map_filter)
  ultimately show ?thesis using bs by blast
qed

lemma lanNet_steve:
  "testServer lanNet ''192.168.1.1'' 8080 =
     (400, Inr (Some \<lparr>ip = ''192.168.1.1'', port = 8080, playerName = JStr ''Steve'', isOnline = True\<rparr>))"
proof -
  have h: "fetchWithin 1500 0 lanNet (probeURL ''192.168.1.1'' 8080 ''/health'') =
      (200, Response True (Some (JObj [(''status'', JStr ''ok''), (''timestamp'', JNum 1000)])))"
    by (simp add: fetchWithin_def lanNet_def probeURL_def show_nat_8080)
  have c: "fetchWithin 1500 200 lanNet (probeURL ''192.168.1.1'' 8080 ''/coords'') =
      (400, Response True (Some (JObj [(''playerName'', JStr ''Steve'')])))"
    by (simp add: fetchWithin_def lanNet_def probeURL_def show_nat_8080)
  show ?thesis unfolding testServer_coords_ok [OF h c] by (simp add: orDefault_def)
qed

lemma lanNet_offline:
  "testServer lanNet ''192.168.1.100'' 8080 =
     (20, Inr (Some \<lparr>ip = ''192.168.1.100'', port = 8080,
        playerName = JStr ''Player Offline'', isOnline = False\<rparr>))"
proof -
  have h: "fetchWithin 1500 0 lanNet (probeURL ''192.168.1.100'' 8080 ''/health'') =
      (10, Response True (Some (JObj [(''status'', JStr ''ok''), (''timestamp'', JNum 1000)])))"
    by (simp add: fetchWithin_def lanNet_def probeURL_def show_nat_8080)
  have c: "fetchWithin 1500 10 lanNet (probeURL ''192.168.1.100'' 8080 ''/coords'') =
      (20, Response False None)"
    by (simp add: fetchWithin_def lanNet_def probeURL_def show_nat_8080)
  show ?thesis by (rule testServer_coords_not_ok [OF h c])
qed

lemma lanNet_silent:
  assumes "a \<noteq> ''192.168.1.1''" "a \<noteq> ''192.168.1.100''"
  shows "probeResult lanNet 8080 a = None"
proof -
  have "lanNet (probeURL a 8080 ''/health'') = (0, Rejects NetworkError)"
    using assms by (simp add: lanNet_def probeURL_def show_nat_8080)
  then have "fetchWithin 1500 0 lanNet (probeURL a 8080 ''/health'') = (0, Rejects NetworkError)"
    by (simp add: fetchWithin_def)
  then show ?thesis by (simp add: probeResult_def testServer_health_rejects)
qed

text \<open>
  C5 as stated fails: on \<open>lanNet\<close> the probe of 192.168.1.100 settles after 20 ms and
  the probe of 192.168.1.1, requested first, after 400 ms; the batch lists 192.168.1.1
  first.
\<close>
theorem subnetBatch_not_in_settlement_order:
  "subnetBatch lanNet 8080 ''192.168.1'' =
     [\<lparr>ip = ''192.168.1.1'', port = 8080, playerName = JStr ''Steve'', isOnline = True\<rparr>,
      \<lparr>ip = ''192.168.1.100'', port = 8080, playerName = JStr ''Player Offline'', isOnline = False\<rparr>]
   \<and> map (settledAt lanNet 8080) (subnetBatch lanNet 8080 ''192.168.1'') = [400, 20]
   \<and> \<not> sorted (map (settledAt lanNet 8080) (subnetBatch lanNet 8080 ''192.168.1''))"
proof -
  have s: "probeResult lanNet 8080 ''192.168.1.1'' =
      Some \<lparr>ip = ''192.168.1.1'', port = 8080, playerName = JStr ''Steve'', isOnline = True\<rparr>"
    by (simp add: probeResult_def lanNet_steve)
  have f: "probeResult lanNet 8080 ''192.168.1.100'' =
      Some \<lparr>ip = ''192.168.1.100'', port = 8080, playerName = JStr ''Player Offline'', isOnline = False\<rparr>"
    by (simp add: probeResult_def lanNet_offline)
  have b: "subnetBatch lanNet 8080 ''192.168.1'' =
     [\<lparr>ip = ''192.168.1.1'', port = 8080, playerName = JStr ''Steve'', isOnline = True\<rparr>,
      \<lparr>ip = ''192.168.1.100'', port = 8080, playerName = JStr ''Player Offline'', isOnline = False\<rparr>]"
    unfolding subnetBatch_eq candidates_suffixes suffixes_eq
    by (simp add: s f lanNet_silent)
  have t: "map (settledAt lanNet 8080) (subnetBatch lanNet 8080 ''192.168.1'') = [400, 20]"
    unfolding b by (simp add: settledAt_def lanNet_steve lanNet_offline)
  from b t show ?thesis by simp
qed

section \<open>Properties of the polling client\<close>

lemma refOwnsIntervals_mounted: "refOwnsIntervals mounted"
  by (simp add: refOwnsIntervals_def mounted_def)

lemma refOwnsIntervals_startUpdates:
  "refOwnsIntervals s \<Longrightarrow> refOwnsIntervals (startUpdates r s)"
  by (cases "intervalRef s")
    (simp_all add: refOwnsIntervals_def startUpdates_def clearInterval_def Let_def
      list_all_iff)

lemma intervals_startUpdates:
  "refOwnsIntervals s \<Longrightarrow>
     intervals (startUpdates r s) = [\<lparr>handle = nextHandle s, seesConnected = isConnected r\<rparr>]"
  by (cases "intervalRef s")
    (auto simp: refOwnsIntervals_def startUpdates_def clearInterval_def Let_def
      list_all_iff filter_empty_conv)

lemma startUpdates_fields:
  "isConnected (startUpdates r s) = isConnected s
   \<and> coordinates (startUpdates r s) = coordinates s
   \<and> apiRef (startUpdates r s) = apiRef s
   \<and> connectedServer (startUpdates r s) = connectedServer s
   \<and> lastUpdate (startUpdates r s) = lastUpdate s
   \<and> alerts (startUpdates r s) = alerts s
   \<and> requests (startUpdates r s) = requests s
   \<and> permissionsGranted (startUpdates r s) = permissionsGranted s
   \<and> intervalRef (startUpdates r s) = Some (nextHandle s)"
  by (cases "intervalRef s") (simp_all add: startUpdates_def clearInterval_def Let_def)

lemma refOwnsIntervals_stopUpdates:
  "refOwnsIntervals s \<Longrightarrow> intervals (stopUpdates s) = []"
  by (cases "intervalRef s")
    (auto simp: refOwnsIntervals_def stopUpdates_def clearInterval_def list_all_iff
      filter_empty_conv)

lemma stopUpdates_stopUpdates: "stopUpdates (stopUpdates s) = stopUpdates s"
  by (cases "intervalRef s") (simp_all add: stopUpdates_def)

lemma stopUpdates_fields:
  "intervalRef (stopUpdates s) = None
   \<and> alerts (stopUpdates s) = alerts s
   \<and> requests (stopUpdates s) = requests s
   \<and> permissionsGranted (stopUpdates s) = permissionsGranted s
   \<and> nextHandle (stopUpdates s) = nextHandle s"
  by (cases "intervalRef s") (simp_all add: stopUpdates_def clearInterval_def)

lemma handleConnect_denied:
  "\<not> permissionsGranted r \<Longrightarrow>
     handleConnect r host p now net s = s\<lparr>alerts := alerts s @ [''Permissions Required'']\<rparr>"
  by (simp add: handleConnect_def)

lemma handleConnect_health_fails:
  assumes "permissionsGranted r" "checkHealth (newMinecraftAPI host p) net = Inl e"
  shows "handleConnect r host p now net s =
     s\<lparr>requests := requests s @ [baseURL (newMinecraftAPI host p) @ ''/health''],
       alerts := alerts s @ [''Connection Failed'']\<rparr>"
  using assms by (simp add: handleConnect_def Let_def)

lemma handleConnect_coords_fails:
  assumes "permissionsGranted r" "checkHealth (newMinecraftAPI host p) net = Inr health"
    "fetchCoordinates (newMinecraftAPI host p) net = Inl e"
  shows "handleConnect r host p now net s =
     s\<lparr>requests := requests s @ [baseURL (newMinecraftAPI host p) @ ''/health'',
          baseURL (newMinecraftAPI host p) @ ''/coords''],
       alerts := alerts s @ [''Connection Failed'']\<rparr>"
  using assms by (simp add: handleConnect_def Let_def)

lemma handleConnect_succeeds:
  assumes "permissionsGranted r" "checkHealth (newMinecraftAPI host p) net = Inr health"
    "fetchCoordinates (newMinecraftAPI host p) net = Inr coords"
  shows "handleConnect r host p now net s =
     startUpdates r
       (s\<lparr>requests := requests s @ [baseURL (newMinecraftAPI host p) @ ''/health'',
            baseURL (newMinecraftAPI host p) @ ''/coords''],
          apiRef := Some (newMinecraftAPI host p),
          coordinates := coords,
          isConnected := True,
          connectedServer := host @ '':'' @ show_nat p,
          lastUpdate := now\<rparr>)"
  using assms by (simp add: handleConnect_def Let_def)

text \<open>
  C8. A connect attempt (of a render that has the network permission) sends the
  health request first and the coordinates request only after the health check has
  succeeded. If the health check fails, or it succeeds and the coordinates fetch fails,
  exactly one alert, \<^verbatim>\<open>Connection Failed\<close>, is shown and the client is otherwise left
  as it was: no API instance stored, no coordinates set, not connected, no interval
  started. Only when both calls succeed is the client connected, with the API instance,
  the fetched coordinates and a new interval, and without an alert.
\<close>
theorem handleConnect_all_or_nothing:
  assumes "permissionsGranted r"
  shows "(\<forall>e. checkHealth (newMinecraftAPI host p) net = Inl e \<longrightarrow>
            handleConnect r host p now net s =
              s\<lparr>requests := requests s @ [baseURL (newMinecraftAPI host p) @ ''/health''],
                alerts := alerts s @ [''Connection Failed'']\<rparr>)
    \<and> (\<forall>health e. checkHealth (newMinecraftAPI host p) net = Inr health
            \<and> fetchCoordinates (newMinecraftAPI host p) net = Inl e \<longrightarrow>
            handleConnect r host p now net s =
              s\<lparr>requests := requests s @ [baseURL (newMinecraftAPI host p) @ ''/health'',
                   baseURL (newMinecraftAPI host p) @ ''/coords''],
                alerts := alerts s @ [''Connection Failed'']\<rparr>)
    \<and> (\<forall>health coords. checkHealth (newMinecraftAPI host p) net = Inr health
            \<and> fetchCoordinates (newMinecraftAPI host p) net = Inr coords \<longrightarrow>
            isConnected (handleConnect r host p now net s)
            \<and> apiRef (handleConnect r host p now net s) = Some (newMinecraftAPI host p)
            \<and> coordinates (handleConnect r host p now net s) = coords
            \<and> connectedServer (handleConnect r host p now net s) = host @ '':'' @ show_nat p
            \<and> lastUpdate (handleConnect r host p now net s) = now
            \<and> intervalRef (handleConnect r host p now net s) = Some (nextHandle s)
            \<and> alerts (handleConnect r host p now net s) = alerts s
            \<and> requests (handleConnect r host p now net s) =
                requests s @ [baseURL (newMinecraftAPI host p) @ ''/health'',
                  baseURL (newMinecraftAPI host p) @ ''/coords''])"
proof -
  have 1: "\<forall>e. checkHealth (newMinecraftAPI host p) net = Inl e \<longrightarrow>
            handleConnect r host p now net s =
              s\<lparr>requests := requests s @ [baseURL (newMinecraftAPI host p) @ ''/health''],
                alerts := alerts s @ [''Connection Failed'']\<rparr>"
    using assms handleConnect_health_fails by blast
  have 2: "\<forall>health e. checkHealth (newMinecraftAPI host p) net = Inr health
            \<and> fetchCoordinates (newMinecraftAPI host p) net = Inl e \<longrightarrow>
            handleConnect r host p now net s =
              s\<lparr>requests := requests s @ [baseURL (newMinecraftAPI host p) @ ''/health'',
                   baseURL (newMinecraftAPI host p) @ ''/coords''],
                alerts := alerts s @ [''Connection Failed'']\<rparr>"
    using assms handleConnect_coords_fails by blast
  have 3: "\<forall>health coords. checkHealth (newMinecraftAPI host p) net = Inr health
            \<and> fetchCoordinates (newMinecraftAPI host p) net = Inr coords \<longrightarrow>
            isConnected (handleConnect r host p now net s)
            \<and> apiRef (handleConnect r host p now net s) = Some (newMinecraftAPI host p)
            \<and> coordinates (handleConnect r host p now net s) = coords
            \<and> connectedServer (handleConnect r host p now net s) = host @ '':'' @ show_nat p
            \<and> lastUpdate (handleConnect r host p now net s) = now
            \<and> intervalRef (handleConnect r host p now net s) = Some (nextHandle s)
            \<and> alerts (handleConnect r host p now net s) = alerts s
            \<and> requests (handleConnect r host p now net s) =
                requests s @ [baseURL (newMinecraftAPI host p) @ ''/health'',
                  baseURL (newMinecraftAPI host p) @ ''/coords'']"
  proof (intro allI impI, elim conjE)
    fix health coords
    assume h: "checkHealth (newMinecraftAPI host p) net = Inr health"
      and c: "fetchCoordinates (newMinecraftAPI host p) net = Inr coords"
    show "isConnected (handleConnect r host p now net s)
            \<and> apiRef (handleConnect r host p now net s) = Some (newMinecraftAPI host p)
            \<and> coordinates (handleConnect r host p now net s) = coords
            \<and> connectedServer (handleConnect r host p now net s) = host @ '':'' @ show_nat p
            \<and> lastUpdate (handleConnect r host p now net s) = now
            \<and> intervalRef (handleConnect r host p now net s) = Some (nextHandle s)
            \<and> alerts (handleConnect r host p now net s) = alerts s
            \<and> requests (handleConnect r host p now net s) =
                requests s @ [baseURL (newMinecraftAPI host p) @ ''/health'',
                  baseURL (newMinecraftAPI host p) @ ''/coords'']"
      unfolding handleConnect_succeeds [OF assms h c] by (simp add: startUpdates_fields)
  qed
  from 1 2 3 show ?thesis by blast
qed

lemma api_8080: "newMinecraftAPI ''192.168.1.100'' 8080 =
    \<lparr>baseURL = ''http://192.168.1.100:8080'', timeout = 3000\<rparr>"
  by (simp add: newMinecraftAPI_def show_nat_8080)

text \<open>C8 on a network where nothing answers: one request, one alert, nothing else changed.\<close>
theorem handleConnect_all_or_nothing_witness:
  "handleConnect mounted ''192.168.1.100'' 8080 1000 deadNet mounted =
     mounted\<lparr>requests := [''http://192.168.1.100:8080/health''],
       alerts := [''Connection Failed'']\<rparr>"
proof -
  have g: "permissionsGranted mounted" by (simp add: mounted_def)
  have h: "checkHealth (newMinecraftAPI ''192.168.1.100'' 8080) deadNet = Inl (FetchError NetworkError)"
    by (simp add: checkHealth_def fetchWithin_def deadNet_def api_8080)
  from handleConnect_all_or_nothing [OF g, of "''192.168.1.100''" 8080 deadNet 1000 mounted] h
  have "handleConnect mounted ''192.168.1.100'' 8080 1000 deadNet mounted =
      mounted\<lparr>requests := requests mounted @ [baseURL (newMinecraftAPI ''192.168.1.100'' 8080) @ ''/health''],
        alerts := alerts mounted @ [''Connection Failed'']\<rparr>"
    by blast
  then show ?thesis by (simp add: api_8080 mounted_def)
qed

text \<open>
  Every operation of the component keeps the ref in possession of the live intervals,
  so every state reached from \<open>mounted\<close> has the property.
\<close>

lemma refOwnsIntervals_handleConnect:
  assumes "refOwnsIntervals s"
  shows "refOwnsIntervals (handleConnect r host p now net s)"
proof (cases "permissionsGranted r")
  case False
  with assms show ?thesis
    by (cases "intervalRef s") (simp_all add: handleConnect_denied refOwnsIntervals_def)
next
  case True
  show ?thesis
  proof (cases "checkHealth (newMinecraftAPI host p) net")
    case (Inl e)
    with assms True show ?thesis
      by (cases "intervalRef s") (simp_all add: handleConnect_health_fails refOwnsIntervals_def)
  next
    case (Inr health)
    show ?thesis
    proof (cases "fetchCoordinates (newMinecraftAPI host p) net")
      case (Inl e)
      with assms True Inr show ?thesis
        by (cases "intervalRef s") (simp_all add: handleConnect_coords_fails refOwnsIntervals_def)
    next
      case coords: (Inr c)
      have "refOwnsIntervals
         (s\<lparr>requests := requests s @ [baseURL (newMinecraftAPI host p) @ ''/health'',
              baseURL (newMinecraftAPI host p) @ ''/coords''],
            apiRef := Some (newMinecraftAPI host p),
            coordinates := c,
            isConnected := True,
            connectedServer := host @ '':'' @ show_nat p,
            lastUpdate := now\<rparr>)"
        using assms by (cases "intervalRef s") (simp_all add: refOwnsIntervals_def)
      then show ?thesis
        unfolding handleConnect_succeeds [OF True Inr coords]
        by (rule refOwnsIntervals_startUpdates)
    qed
  qed
qed

lemma tick_keeps_intervals:
  "intervals (tick t now net s) = intervals s \<and> intervalRef (tick t now net s) = intervalRef s"
  by (simp add: tick_def Let_def split: option.splits sum.splits)

lemma refOwnsIntervals_tick:
  "refOwnsIntervals s \<Longrightarrow> refOwnsIntervals (tick t now net s)"
  by (cases "intervalRef s") (simp_all add: refOwnsIntervals_def tick_keeps_intervals)

lemma refOwnsIntervals_fireIntervals:
  assumes "refOwnsIntervals s"
  shows "refOwnsIntervals (fireIntervals now net s)"
proof -
  have "refOwnsIntervals s' \<Longrightarrow> refOwnsIntervals (fold (\<lambda>t. tick t now net) ts s')" for ts s'
    by (induction ts arbitrary: s') (simp_all add: refOwnsIntervals_tick)
  with assms show ?thesis by (simp add: fireIntervals_def)
qed

lemma handleDisconnect_fields:
  "\<not> isConnected (handleDisconnect s) \<and> coordinates (handleDisconnect s) = JNull
   \<and> apiRef (handleDisconnect s) = None \<and> intervalRef (handleDisconnect s) = None
   \<and> connectedServer (handleDisconnect s) = [] \<and> lastUpdate (handleDisconnect s) = 0
   \<and> alerts (handleDisconnect s) = alerts s \<and> requests (handleDisconnect s) = requests s
   \<and> intervals (handleDisconnect s) = intervals (stopUpdates s)"
  by (simp add: handleDisconnect_def stopUpdates_fields)

lemma refOwnsIntervals_handleDisconnect:
  "refOwnsIntervals s \<Longrightarrow> refOwnsIntervals (handleDisconnect s)"
  by (simp add: refOwnsIntervals_def [of "handleDisconnect s"] handleDisconnect_fields
      refOwnsIntervals_stopUpdates)

lemma handleDisconnect_twice: "handleDisconnect (handleDisconnect s) = handleDisconnect s"
proof -
  have "intervalRef (handleDisconnect s) = None" by (simp add: handleDisconnect_fields)
  then have "stopUpdates (handleDisconnect s) = handleDisconnect s"
    by (simp add: stopUpdates_def)
  then show ?thesis
    by (simp add: handleDisconnect_def [of "handleDisconnect s"] handleDisconnect_fields)
qed

text \<open>
  C9. \<^verbatim>\<open>handleDisconnect\<close> is a total state change that shows no alert; from any
  state it leaves the client not connected, without snapshot, API instance or held
  interval; calling it a second time changes nothing; and from a state in which the
  ref holds every live interval (as in every state the component reaches) no interval
  remains live, so the client is Idle after the first call and after the second.
\<close>
theorem handleDisconnect_idempotent:
  "handleDisconnect (handleDisconnect s) = handleDisconnect s
   \<and> \<not> isConnected (handleDisconnect s) \<and> coordinates (handleDisconnect s) = JNull
   \<and> apiRef (handleDisconnect s) = None \<and> intervalRef (handleDisconnect s) = None
   \<and> connectedServer (handleDisconnect s) = [] \<and> lastUpdate (handleDisconnect s) = 0
   \<and> alerts (handleDisconnect s) = alerts s
   \<and> (refOwnsIntervals s \<longrightarrow>
        idle (handleDisconnect s) \<and> idle (handleDisconnect (handleDisconnect s)))"
proof -
  have "refOwnsIntervals s \<longrightarrow> idle (handleDisconnect s)"
    by (simp add: idle_def handleDisconnect_fields refOwnsIntervals_stopUpdates)
  then show ?thesis
    by (simp add: handleDisconnect_twice handleDisconnect_fields)
qed

lemma steve_health:
  "checkHealth (newMinecraftAPI ''192.168.1.100'' 8080) steveNet =
     Inr (JObj [(''status'', JStr ''ok''), (''timestamp'', JNum 1000)])"
  by (simp add: checkHealth_def fetchWithin_def steveNet_def api_8080)

lemma steve_coords:
  "fetchCoordinates (newMinecraftAPI ''192.168.1.100'' 8080) steveNet = Inr steveCoords"
  by (simp add: fetchCoordinates_def fetchWithin_def steveNet_def api_8080)

lemma steve_connected:
  "handleConnect mounted ''192.168.1.100'' 8080 1000 steveNet mounted =
     \<lparr>coordinates = steveCoords, isConnected = True, connectedServer = ''192.168.1.100:8080'',
      lastUpdate = 1000, permissionsGranted = True,
      apiRef = Some \<lparr>baseURL = ''http://192.168.1.100:8080'', timeout = 3000\<rparr>,
      intervalRef = Some 1, intervals = [\<lparr>handle = 1, seesConnected = False\<rparr>],
      nextHandle = 2, alerts = [],
      requests = [''http://192.168.1.100:8080/health'', ''http://192.168.1.100:8080/coords'']\<rparr>"
proof -
  have g: "permissionsGranted mounted" by (simp add: mounted_def)
  show ?thesis
    unfolding handleConnect_succeeds [OF g steve_health steve_coords]
    by (simp add: api_8080 show_nat_8080 mounted_def startUpdates_def Let_def)
qed

text \<open>C9 from the session connected to the example server.\<close>
theorem handleDisconnect_idempotent_witness:
  "refOwnsIntervals (handleConnect mounted ''192.168.1.100'' 8080 1000 steveNet mounted)
   \<and> idle (handleDisconnect (handleConnect mounted ''192.168.1.100'' 8080 1000 steveNet mounted))
   \<and> idle (handleDisconnect (handleDisconnect
        (handleConnect mounted ''192.168.1.100'' 8080 1000 steveNet mounted)))"
proof -
  have o: "refOwnsIntervals (handleConnect mounted ''192.168.1.100'' 8080 1000 steveNet mounted)"
    unfolding steve_connected by (simp add: refOwnsIntervals_def)
  with handleDisconnect_idempotent
    [of "handleConnect mounted ''192.168.1.100'' 8080 1000 steveNet mounted"]
  show ?thesis by blast
qed

lemma tick_stale: "\<not> seesConnected t \<Longrightarrow> tick t now net s = s"
  by (simp add: tick_def split: option.splits)

lemma fireIntervals_stale:
  "list_all (\<lambda>t. \<not> seesConnected t) (intervals s) \<Longrightarrow> fireIntervals now net s = s"
proof -
  have "list_all (\<lambda>t. \<not> seesConnected t) ts \<Longrightarrow> fold (\<lambda>t. tick t now net) ts s = s" for ts
    by (induction ts) (simp_all add: tick_stale)
  then show "list_all (\<lambda>t. \<not> seesConnected t) (intervals s) \<Longrightarrow> fireIntervals now net s = s"
    by (simp add: fireIntervals_def)
qed

text \<open>
  A callback that saw \<^verbatim>\<open>isConnected\<close> as true does fetch; the one installed by a
  successful connect from a render that offers connecting never does, whatever the
  time and the network.
\<close>

lemma tick_fresh:
  assumes "seesConnected t" "apiRef s = Some api"
  shows "requests (tick t now net s) = requests s @ [baseURL api @ ''/coords'']"
  using assms by (simp add: tick_def Let_def split: sum.splits)

lemma fireIntervals_after_connect:
  assumes "offersConnect r" "permissionsGranted r" "refOwnsIntervals s"
    and "checkHealth (newMinecraftAPI host p) net = Inr health"
    and "fetchCoordinates (newMinecraftAPI host p) net = Inr coords"
  shows "fireIntervals now' net' (handleConnect r host p now net s) = handleConnect r host p now net s"
proof -
  define s2 where "s2 = s\<lparr>requests := requests s @ [baseURL (newMinecraftAPI host p) @ ''/health'',
            baseURL (newMinecraftAPI host p) @ ''/coords''],
          apiRef := Some (newMinecraftAPI host p),
          coordinates := coords,
          isConnected := True,
          connectedServer := host @ '':'' @ show_nat p,
          lastUpdate := now\<rparr>"
  have c: "handleConnect r host p now net s = startUpdates r s2"
    unfolding s2_def by (rule handleConnect_succeeds [OF assms(2,4,5)])
  have "refOwnsIntervals s2"
    using assms(3) by (cases "intervalRef s") (simp_all add: refOwnsIntervals_def s2_def)
  then have "intervals (startUpdates r s2) = [\<lparr>handle = nextHandle s2, seesConnected = isConnected r\<rparr>]"
    by (rule intervals_startUpdates)
  with assms(1) c have "intervals (handleConnect r host p now net s) =
      [\<lparr>handle = nextHandle s2, seesConnected = False\<rparr>]"
    by (simp add: offersConnect_def)
  then show ?thesis by (simp add: fireIntervals_stale)
qed

text \<open>
  C7 fails on the code. \<^verbatim>\<open>handleConnect\<close> runs in a render in which
  \<^verbatim>\<open>isConnected\<close> is \<^verbatim>\<open>false\<close> (the scanner that calls it is rendered only then),
  and the interval callback it installs through \<^verbatim>\<open>startUpdates\<close> closes over that
  value. After a successful connect to the example server the client is connected and
  holds the initial snapshot, the interval is live, and a tick sends no request and
  changes nothing: the only requests ever sent are the two of the connect itself.
\<close>
theorem ticks_after_connect_fetch_nothing:
  "isConnected (handleConnect mounted ''192.168.1.100'' 8080 1000 steveNet mounted)
   \<and> coordinates (handleConnect mounted ''192.168.1.100'' 8080 1000 steveNet mounted) = steveCoords
   \<and> intervals (handleConnect mounted ''192.168.1.100'' 8080 1000 steveNet mounted) =
       [\<lparr>handle = 1, seesConnected = False\<rparr>]
   \<and> fireIntervals 1500 steveNet (handleConnect mounted ''192.168.1.100'' 8080 1000 steveNet mounted) =
       handleConnect mounted ''192.168.1.100'' 8080 1000 steveNet mounted
   \<and> requests (fireIntervals 1500 steveNet
        (handleConnect mounted ''192.168.1.100'' 8080 1000 steveNet mounted)) =
       [''http://192.168.1.100:8080/health'', ''http://192.168.1.100:8080/coords'']"
proof -
  have "fireIntervals 1500 steveNet (handleConnect mounted ''192.168.1.100'' 8080 1000 steveNet mounted) =
       handleConnect mounted ''192.168.1.100'' 8080 1000 steveNet mounted"
    by (rule fireIntervals_stale) (simp add: steve_connected)
  then show ?thesis by (simp add: steve_connected)
qed

end
